theory Spec2Isabelle
  imports Main
begin

section \<open>The scheduled backup service of NutriBin-CRON\<close>

text \<open>
  A shallow embedding of \<^verbatim>\<open>ScheduledBackupService\<close>
  (\<^verbatim>\<open>src/Backend/src/services/backup/scheduled-backup.service.ts\<close>).
  Every method becomes a function from the state of the process before the call to the
  value it returns (or the value it throws) and the state after the call. What the service
  calls but does not implement (the backup service, the database service, the constructor
  and the \<^verbatim>\<open>stop\<close> method of the cron library, the date formatting of the
  JavaScript runtime) is a parameter of every definition, so each theorem holds for every
  behaviour of these collaborators.
\<close>

subsection \<open>Values\<close>

text \<open>A thrown value; a rejected promise carries one as well.\<close>

datatype js_error = Error string | TypeError string | RangeError string

text \<open>
  A JavaScript \<^verbatim>\<open>Date\<close>: a time value in milliseconds since the epoch, or the
  invalid date (time value NaN).
\<close>

datatype js_date = InvalidDate | DateMs int

text \<open>
  \<^verbatim>\<open>type CronDateLike = Date | { toJSDate(): Date }\<close>: a native date, or an
  object whose \<^verbatim>\<open>toJSDate()\<close> returns a date or throws.
\<close>

datatype cron_date_like = NativeDate js_date | Wrapped "js_error + js_date"

text \<open>The database client handle is opaque.\<close>

datatype client = Client nat

text \<open>A job of the cron library, as far as the service reads it.\<close>

record cron_job =
  running :: bool
  nextDate :: "js_error + cron_date_like option"
  lastDate :: "js_error + cron_date_like option"

text \<open>What \<^verbatim>\<open>job.stop()\<close> returns: nothing, or a promise that resolves or rejects.\<close>

datatype stop_return = StopVoid | StopPromise "js_error + unit"

text \<open>The options object that \<^verbatim>\<open>formatGMT8\<close> passes to \<^verbatim>\<open>toLocaleString\<close>.\<close>

record locale_options =
  timeZone :: string
  year :: string
  month :: string
  day :: string
  hour :: string
  minute :: string
  second :: string
  hour12 :: bool

text \<open>Console output: a plain string, or a string coloured by \<^verbatim>\<open>chalk\<close>.\<close>

datatype colour = Yellow | Cyan | Green | Red

datatype console_text = Plain string | Chalk colour string

text \<open>
  Everything a method does to the outside is recorded, in order: console output, and every
  call on a collaborator with its arguments.
\<close>

datatype event =
    ConsoleLog console_text
  | ConsoleError console_text js_error
  | NewCronJob string bool string
  | GetCronJob string
  | JobNextDate
  | JobLastDate
  | JobStop
  | AwaitStop
  | GetClient
  | CreateFullBackup client
  | UploadToSupabase string
  | CleanOldBackups nat

text \<open>
  The collaborators. Each field is the outcome of the call: \<open>Inl\<close> a thrown value (or a
  rejected promise), \<open>Inr\<close> the value returned (or the promise's value).
  \<open>newCronJob cronTime timeZone\<close> is \<^verbatim>\<open>new CronJob(cronTime, onTick, null, false, timeZone)\<close>;
  \<open>stopJob\<close> is \<^verbatim>\<open>job.stop()\<close>, with the job as the library leaves it;
  \<open>isoString\<close> and \<open>localeString\<close> are what the runtime prints for a valid time value.
\<close>

record deps =
  getClient :: "js_error + client"
  createFullBackup :: "client \<Rightarrow> js_error + string"
  uploadToSupabase :: "string \<Rightarrow> js_error + unit"
  cleanOldBackups :: "nat \<Rightarrow> js_error + unit"
  newCronJob :: "string \<Rightarrow> string \<Rightarrow> js_error + cron_job"
  stopJob :: "cron_job \<Rightarrow> (js_error + stop_return) \<times> cron_job"
  isoString :: "int \<Rightarrow> string"
  localeString :: "string \<Rightarrow> locale_options \<Rightarrow> int \<Rightarrow> string"

text \<open>
  The state of the process: the environment variables, the scheduler registry (jobs by
  name), the system clock (\<open>clock w n\<close> is the \<open>n\<close>-th reading, \<open>ticks\<close> counts the
  readings taken) and the events so far.
\<close>

record world =
  env :: "string \<rightharpoonup> string"
  registry :: "string \<rightharpoonup> cron_job"
  clock :: "nat \<Rightarrow> int"
  ticks :: nat
  trace :: "event list"

subsection \<open>Computations that may throw\<close>

type_synonym 'a io = "world \<Rightarrow> (js_error + 'a) \<times> world"

definition io_return :: "'a \<Rightarrow> 'a io" where
  "io_return x w = (Inr x, w)"

definition io_bind :: "'a io \<Rightarrow> ('a \<Rightarrow> 'b io) \<Rightarrow> 'b io" where
  "io_bind m f w = (case m w of (Inl e, w') \<Rightarrow> (Inl e, w') | (Inr x, w') \<Rightarrow> f x w')"

text \<open>\<^verbatim>\<open>try { m } catch (error) { h(error) }\<close>\<close>

definition io_try :: "'a io \<Rightarrow> (js_error \<Rightarrow> 'a io) \<Rightarrow> 'a io" where
  "io_try m h w = (case m w of (Inl e, w') \<Rightarrow> h e w' | (Inr x, w') \<Rightarrow> (Inr x, w'))"

text \<open>An outcome that is already known: it throws or returns, and changes nothing.\<close>

definition io_of :: "js_error + 'a \<Rightarrow> 'a io" where
  "io_of r w = (r, w)"

definition emit :: "event \<Rightarrow> world \<Rightarrow> world" where
  "emit ev w = w\<lparr>trace := trace w @ [ev]\<rparr>"

text \<open>A call on a collaborator: the call is recorded, then its outcome is the result.\<close>

definition call :: "event \<Rightarrow> js_error + 'a \<Rightarrow> 'a io" where
  "call ev r w = (r, emit ev w)"

definition console_log :: "console_text \<Rightarrow> unit io" where
  "console_log t w = (Inr (), emit (ConsoleLog t) w)"

definition console_error :: "console_text \<Rightarrow> js_error \<Rightarrow> unit io" where
  "console_error t e w = (Inr (), emit (ConsoleError t e) w)"

text \<open>\<^verbatim>\<open>process.env[k]\<close>\<close>

definition getenv :: "string \<Rightarrow> string option io" where
  "getenv k w = (Inr (env w k), w)"

text \<open>\<^verbatim>\<open>new Date()\<close>: the next reading of the clock, always a valid date.\<close>

definition newDate :: "js_date io" where
  "newDate w = (Inr (DateMs (clock w (ticks w))), w\<lparr>ticks := Suc (ticks w)\<rparr>)"

text \<open>The events of a call: those the state after it has beyond the state before it.\<close>

definition new_events :: "world \<Rightarrow> world \<Rightarrow> event list" where
  "new_events w w' = drop (length (trace w)) (trace w')"

subsection \<open>The runtime and the registry\<close>

text \<open>
  \<^verbatim>\<open>v || dflt\<close> on an environment variable: an unset variable and the empty string are
  both falsy.
\<close>

definition envOr :: "string option \<Rightarrow> string \<Rightarrow> string" where
  "envOr v dflt = (case v of None \<Rightarrow> dflt | Some s \<Rightarrow> if s = [] then dflt else s)"

text \<open>\<^verbatim>\<open>Date.prototype.toISOString\<close> throws a RangeError on the invalid date.\<close>

definition toISOString :: "deps \<Rightarrow> js_date \<Rightarrow> js_error + string" where
  "toISOString d x =
     (case x of InvalidDate \<Rightarrow> Inl (RangeError ''Invalid time value'')
      | DateMs t \<Rightarrow> Inr (isoString d t))"

text \<open>\<^verbatim>\<open>Date.prototype.toLocaleString\<close> does not throw on the invalid date.\<close>

definition toLocaleString :: "deps \<Rightarrow> js_date \<Rightarrow> string \<Rightarrow> locale_options \<Rightarrow> string" where
  "toLocaleString d x locale opts =
     (case x of InvalidDate \<Rightarrow> ''Invalid Date'' | DateMs t \<Rightarrow> localeString d locale opts t)"

text \<open>\<^verbatim>\<open>x instanceof Date ? x : x.toJSDate()\<close>\<close>

definition toJSDate :: "cron_date_like \<Rightarrow> js_error + js_date" where
  "toJSDate x = (case x of NativeDate dt \<Rightarrow> Inr dt | Wrapped r \<Rightarrow> r)"

text \<open>
  Modelled from the spec: \<^verbatim>\<open>SchedulerRegistry.getCronJob\<close> of the scheduling
  framework, which is not in the repository. "Job registry: getCronJob(name) -> job handle;
  throws/fails if absent."
\<close>

definition noCronJobFound :: "string \<Rightarrow> js_error" where
  "noCronJobFound name = Error (''No Cron Job was found with the given name ('' @ name @ '')'')"

definition getCronJob :: "string \<Rightarrow> cron_job io" where
  "getCronJob name w =
     (case registry w name of
        None \<Rightarrow> (Inl (noCronJobFound name), emit (GetCronJob name) w)
      | Some job \<Rightarrow> (Inr job, emit (GetCronJob name) w))"

subsection \<open>The service\<close>

text \<open>\<^verbatim>\<open>formatGMT8\<close> (lines 131 to 142).\<close>

definition formatGMT8 :: "deps \<Rightarrow> js_date \<Rightarrow> string" where
  "formatGMT8 d date =
     toLocaleString d date ''en-US''
       \<lparr>timeZone = ''Asia/Manila'', year = ''numeric'', month = ''short'', day = ''2-digit'',
        hour = ''2-digit'', minute = ''2-digit'', second = ''2-digit'', hour12 = True\<rparr>"

text \<open>The body of the \<^verbatim>\<open>try\<close> block of the timer callback (lines 48 to 61).\<close>

definition scheduledBackupBody :: "deps \<Rightarrow> unit io" where
  "scheduledBackupBody d =
     io_bind (call GetClient (getClient d)) (\<lambda>client.
     io_bind (call (CreateFullBackup client) (createFullBackup d client)) (\<lambda>backupPath.
     io_bind (console_log
                (Chalk Green (''[BACKUP] Scheduled backup completed locally: '' @ backupPath))) (\<lambda>_.
     io_bind (call (UploadToSupabase backupPath) (uploadToSupabase d backupPath)) (\<lambda>_.
     call (CleanOldBackups 30) (cleanOldBackups d 30)))))"

text \<open>The timer callback, the second argument of \<^verbatim>\<open>new CronJob\<close> (lines 44 to 65).\<close>

definition scheduledBackupCallback :: "deps \<Rightarrow> unit io" where
  "scheduledBackupCallback d =
     io_bind (console_log (Chalk Yellow ''[BACKUP] Running scheduled backup...'')) (\<lambda>_.
     io_try (scheduledBackupBody d)
       (\<lambda>error. console_error (Chalk Red ''[BACKUP] Scheduled backup failed:'') error))"

text \<open>
  \<^verbatim>\<open>scheduleBackups\<close> (lines 26 to 86). The next run is read from the job just
  constructed; a \<^verbatim>\<open>null\<close> there has no \<^verbatim>\<open>toJSDate\<close>, which is a TypeError.
\<close>

definition scheduleBackups :: "deps \<Rightarrow> unit io" where
  "scheduleBackups d w =
     (let cronExpression = envOr (env w ''BACKUP_CRON'') ''0 2 * * *'';
          timezone = envOr (env w ''BACKUP_TIMEZONE'') ''UTC'';
          enabled = (env w ''BACKUP_ENABLED'' \<noteq> Some ''false'')
      in if \<not> enabled
         then console_log (Chalk Yellow ''[BACKUP] Scheduled backups are disabled'') w
         else
          (io_bind (console_log
                      (Chalk Cyan (''[BACKUP] Scheduling automatic backups: '' @ cronExpression
                                   @ '' ('' @ timezone @ '')''))) (\<lambda>_.
           io_bind (call (NewCronJob cronExpression False timezone)
                      (newCronJob d cronExpression timezone)) (\<lambda>job.
           io_bind (call JobNextDate (nextDate job)) (\<lambda>nextRun.
           io_bind (io_of (case nextRun of
                             None \<Rightarrow> Inl (TypeError ''Cannot read properties of null'')
                           | Some x \<Rightarrow> toJSDate x)) (\<lambda>nextRunDate.
           io_bind (console_log
                      (Chalk Green ''[BACKUP] Automatic backup schedule initialized.'')) (\<lambda>_.
           io_bind newDate (\<lambda>t1.
           io_bind (io_of (toISOString d t1)) (\<lambda>serverIso.
           io_bind newDate (\<lambda>t2.
           io_bind (console_log
                      (Chalk Cyan (''[BACKUP] Current Server Time: '' @ serverIso
                                   @ '' | local(GMT+8): '' @ formatGMT8 d t2))) (\<lambda>_.
           io_bind (io_of (toISOString d nextRunDate)) (\<lambda>nextIso.
           console_log
             (Chalk Yellow (''[BACKUP] Next run scheduled for: '' @ nextIso
                            @ '' | local(GMT+8): '' @ formatGMT8 d nextRunDate))))))))))))) w)"

text \<open>\<^verbatim>\<open>triggerManualBackup\<close> (lines 91 to 110).\<close>

definition triggerManualBackup :: "deps \<Rightarrow> string io" where
  "triggerManualBackup d =
     io_bind (console_log (Chalk Yellow ''[BACKUP] Manual backup triggered...'')) (\<lambda>_.
     io_try
       (io_bind (call GetClient (getClient d)) (\<lambda>client.
        io_bind (call (CreateFullBackup client) (createFullBackup d client)) (\<lambda>backupPath.
        io_bind (console_log
                   (Chalk Green (''[BACKUP] Manual backup completed locally: '' @ backupPath))) (\<lambda>_.
        io_bind (call (UploadToSupabase backupPath) (uploadToSupabase d backupPath)) (\<lambda>_.
        io_return backupPath)))))
       (\<lambda>error.
          io_bind (console_error (Chalk Red ''[BACKUP] Manual backup failed:'') error) (\<lambda>_.
          io_of (Inl error))))"

text \<open>
  \<^verbatim>\<open>job.stop()\<close> on the job registered under \<open>name\<close>. The registry holds the job by
  reference, so the job as the library leaves it is the one the registry holds afterwards.
\<close>

definition jobStop :: "deps \<Rightarrow> string \<Rightarrow> cron_job \<Rightarrow> stop_return io" where
  "jobStop d name job w =
     (case stopJob d job of
        (r, job') \<Rightarrow> (r, emit JobStop (w\<lparr>registry := (registry w)(name \<mapsto> job')\<rparr>)))"

text \<open>\<^verbatim>\<open>stopScheduledBackups\<close> (lines 115 to 126).\<close>

definition stopScheduledBackups :: "deps \<Rightarrow> unit io" where
  "stopScheduledBackups d =
     io_try
       (io_bind (getCronJob ''database-backup'') (\<lambda>job.
        io_bind (jobStop d ''database-backup'' job) (\<lambda>stopResult.
        io_bind (case stopResult of
                   StopVoid \<Rightarrow> io_return ()
                 | StopPromise r \<Rightarrow> call AwaitStop r) (\<lambda>_.
        console_log (Chalk Yellow ''[BACKUP] Scheduled backups stopped'')))))
       (\<lambda>error. console_error (Plain ''[BACKUP] Error stopping scheduled backups:'') error)"

text \<open>
  What \<^verbatim>\<open>getScheduleStatus\<close> returns: the full record of the \<^verbatim>\<open>try\<close> block or the
  record of the \<^verbatim>\<open>catch\<close> block.
\<close>

datatype schedule_status =
    Status (enabled: bool) (cronExpression: string) (timezone: string)
      (nextRun: string) (nextRunLocal: string) (lastRun: string) (lastRunLocal: string)
      (serverTime: string) (serverTimeLocal: string)
  | Degraded (enabled: bool) (cronExpression: string) (error: string)

text \<open>
  Lines 153 to 166: \<^verbatim>\<open>'N/A'\<close>, or the ISO string of the normalized date when there is one.
\<close>

definition runStr :: "deps \<Rightarrow> cron_date_like option \<Rightarrow> string io" where
  "runStr d x =
     (case x of
        None \<Rightarrow> io_return ''N/A''
      | Some dl \<Rightarrow> io_bind (io_of (toJSDate dl)) (\<lambda>normalized. io_of (toISOString d normalized)))"

text \<open>
  Lines 173 to 179 and 181 to 187: \<^verbatim>\<open>'N/A'\<close>, or the date normalized again and
  formatted for display.
\<close>

definition runLocal :: "deps \<Rightarrow> cron_date_like option \<Rightarrow> string io" where
  "runLocal d x =
     (case x of
        None \<Rightarrow> io_return ''N/A''
      | Some dl \<Rightarrow> io_bind (io_of (toJSDate dl)) (\<lambda>normalized. io_return (formatGMT8 d normalized)))"

text \<open>\<^verbatim>\<open>getScheduleStatus\<close> (lines 147 to 199).\<close>

definition getScheduleStatus :: "deps \<Rightarrow> schedule_status io" where
  "getScheduleStatus d =
     io_try
       (io_bind (getCronJob ''database-backup'') (\<lambda>job.
        io_bind (call JobNextDate (nextDate job)) (\<lambda>nextD.
        io_bind (call JobLastDate (lastDate job)) (\<lambda>lastD.
        io_bind (runStr d nextD) (\<lambda>nextRunStr.
        io_bind (runStr d lastD) (\<lambda>lastRunStr.
        io_bind (getenv ''BACKUP_CRON'') (\<lambda>cron.
        io_bind (getenv ''BACKUP_TIMEZONE'') (\<lambda>tz.
        io_bind (runLocal d nextD) (\<lambda>nextLocal.
        io_bind (runLocal d lastD) (\<lambda>lastLocal.
        io_bind newDate (\<lambda>t1.
        io_bind (io_of (toISOString d t1)) (\<lambda>serverIso.
        io_bind newDate (\<lambda>t2.
        io_return
          (Status True (envOr cron ''0 2 * * *'') (envOr tz ''UTC'') nextRunStr nextLocal
             lastRunStr lastLocal serverIso (formatGMT8 d t2)))))))))))))))
       (\<lambda>err.
          io_bind (console_error (Plain ''[BACKUP] Status check failed:'') err) (\<lambda>_.
          io_bind (getenv ''BACKUP_CRON'') (\<lambda>cron.
          io_return (Degraded False (envOr cron ''0 2 * * *'') ''Scheduler not initialized''))))"

subsection \<open>The display format\<close>

text \<open>
  \<^verbatim>\<open>formatGMT8\<close> hands the date to \<^verbatim>\<open>Date.prototype.toLocaleString\<close> of the
  JavaScript runtime, which is not in the repository. What the runtime prints for the locale
  and the options of \<^verbatim>\<open>formatGMT8\<close> is written down here from the spec: "converts any
  timestamp into a fixed-timezone (Asia/Manila) human-readable string with format:
  Mon DD, YYYY, HH:MM:SS AM/PM (12-hour clock)", at UTC+8.
\<close>

text \<open>Modelled from the spec: a decimal digit of the fields "DD", "YYYY", "HH", "MM", "SS".\<close>

definition digit :: "int \<Rightarrow> char" where
  "digit n = ''0123456789'' ! nat (n mod 10)"

text \<open>Modelled from the spec: the two digits of "DD", "HH", "MM" and "SS".\<close>

definition pad2 :: "int \<Rightarrow> string" where
  "pad2 n = [digit (n div 10), digit n]"

text \<open>Modelled from the spec: a natural number in decimal, for "YYYY".\<close>

fun decimal :: "nat \<Rightarrow> string" where
  "decimal n = (if n < 10 then [digit (int n)] else decimal (n div 10) @ [digit (int n)])"

declare decimal.simps [simp del]

text \<open>
  Modelled from the spec: the field "YYYY", the year in decimal. The spec does not say how a
  year before year 0 is written; it is written with a minus sign here.
\<close>

definition year_numeric :: "int \<Rightarrow> string" where
  "year_numeric y = (if y < 0 then CHR ''-'' # decimal (nat (- y)) else decimal (nat y))"

text \<open>Modelled from the spec: the field "Mon", the English short name of month 1 to 12.\<close>

definition month_short :: "int \<Rightarrow> string" where
  "month_short m =
     [''Jan'', ''Feb'', ''Mar'', ''Apr'', ''May'', ''Jun'',
      ''Jul'', ''Aug'', ''Sep'', ''Oct'', ''Nov'', ''Dec''] ! nat (m - 1)"

text \<open>The fields of a date and time of day on the wall clock of some time zone.\<close>

record local_time =
  lt_year :: int
  lt_month :: int
  lt_day :: int
  lt_hour :: int
  lt_minute :: int
  lt_second :: int

text \<open>
  Modelled from the spec: the Gregorian date (year, month, day) of a day counted from
  1970-01-01. The days are counted from 0000-03-01 and split into cycles of 400 years
  (146097 days), centuries (36524 days, the fourth one day longer), cycles of four years
  (1461 days) and years (365 days, the fourth one day longer); a year that starts in March
  has its months at the days \<open>(153 * mp + 2) div 5\<close>.
\<close>

definition civil_from_days :: "int \<Rightarrow> int \<times> int \<times> int" where
  "civil_from_days days =
     (let z = days + 719468;
          era = z div 146097;
          doe = z mod 146097;
          c = min 3 (doe div 36524);
          doc = doe - 36524 * c;
          q = doc div 1461;
          doq = doc mod 1461;
          a = min 3 (doq div 365);
          doy = doq - 365 * a;
          mp = (5 * doy + 2) div 153;
          d = doy - (153 * mp + 2) div 5 + 1;
          m = (if mp < 10 then mp + 3 else mp - 9);
          y = 400 * era + 100 * c + 4 * q + a + (if m \<le> 2 then 1 else 0)
      in (y, m, d))"

text \<open>
  Modelled from the spec: the date and the time of day at UTC of a time value in
  milliseconds since 1970-01-01T00:00:00Z.
\<close>

definition utc_time :: "int \<Rightarrow> local_time" where
  "utc_time ms =
     (let secs = ms div 1000;
          sod = secs mod 86400;
          (y, m, d) = civil_from_days (secs div 86400)
      in \<lparr>lt_year = y, lt_month = m, lt_day = d,
          lt_hour = sod div 3600, lt_minute = sod mod 3600 div 60, lt_second = sod mod 60\<rparr>)"

text \<open>Modelled from the spec: the wall clock of Asia/Manila, eight hours ahead of UTC.\<close>

definition manila_time :: "int \<Rightarrow> local_time" where
  "manila_time ms = utc_time (ms + 8 * 3600 * 1000)"

text \<open>
  Modelled from the spec: the format "Mon DD, YYYY, HH:MM:SS AM/PM" on a 12-hour clock, where
  the hours 0 and 12 are both written 12.
\<close>

definition render12 :: "local_time \<Rightarrow> string" where
  "render12 lt =
     month_short (lt_month lt) @ '' '' @ pad2 (lt_day lt) @ '', '' @ year_numeric (lt_year lt)
     @ '', '' @ pad2 (if lt_hour lt mod 12 = 0 then 12 else lt_hour lt mod 12)
     @ '':'' @ pad2 (lt_minute lt) @ '':'' @ pad2 (lt_second lt)
     @ '' '' @ (if lt_hour lt < 12 then ''AM'' else ''PM'')"

text \<open>
  Modelled from the spec: what \<^verbatim>\<open>toLocaleString\<close> of the runtime prints for a valid
  time value, the locale \<^verbatim>\<open>en-US\<close> and the options of \<^verbatim>\<open>formatGMT8\<close>.
\<close>

definition manilaString :: "int \<Rightarrow> string" where
  "manilaString ms = render12 (manila_time ms)"

text \<open>
  The status record without the three fields that \<^verbatim>\<open>formatGMT8\<close> fills
  (\<^verbatim>\<open>nextRunLocal\<close>, \<^verbatim>\<open>lastRunLocal\<close>, \<^verbatim>\<open>serverTimeLocal\<close>).
\<close>

definition without_display :: "schedule_status \<Rightarrow> schedule_status" where
  "without_display s =
     (case s of
        Status e c tz n nl l ll st stl \<Rightarrow> Status e c tz n [] l [] st []
      | Degraded e c err \<Rightarrow> Degraded e c err)"

subsection \<open>Concrete collaborators and states\<close>

text \<open>
  A job whose next run is 2024-01-02T02:00:00Z, held by the library as a wrapped date, and
  which has not run yet.
\<close>

definition example_job :: cron_job where
  "example_job =
     \<lparr>running = False,
      nextDate = Inr (Some (Wrapped (Inr (DateMs 1704160800000)))),
      lastDate = Inr None\<rparr>"

text \<open>A job whose next run normalizes to the invalid date.\<close>

definition invalid_job :: cron_job where
  "invalid_job = example_job\<lparr>nextDate := Inr (Some (Wrapped (Inr InvalidDate)))\<rparr>"

text \<open>Collaborators that all succeed; the two formatters print a fixed string.\<close>

definition example_deps :: deps where
  "example_deps =
     \<lparr>getClient = Inr (Client 1),
      createFullBackup = (\<lambda>c. Inr ''backups/full.sql''),
      uploadToSupabase = (\<lambda>p. Inr ()),
      cleanOldBackups = (\<lambda>n. Inr ()),
      newCronJob = (\<lambda>cronTime tz. Inr example_job),
      stopJob = (\<lambda>job. (Inr StopVoid, job\<lparr>running := False\<rparr>)),
      isoString = (\<lambda>t. ''ISO''),
      localeString = (\<lambda>locale opts t. ''LOCAL'')\<rparr>"

text \<open>The same collaborators on a runtime that formats as the spec says.\<close>

definition manila_deps :: deps where
  "manila_deps = example_deps\<lparr>localeString := \<lambda>locale opts. manilaString\<rparr>"

text \<open>
  A process with no environment variable set and an empty registry, started at
  2024-01-01T00:00:00Z, the clock advancing by a millisecond at each reading.
\<close>

definition empty_world :: world where
  "empty_world =
     \<lparr>env = Map.empty, registry = Map.empty, clock = (\<lambda>n. 1704067200000 + int n),
      ticks = 0, trace = []\<rparr>"

text \<open>The same process with a job registered under the key the service looks up.\<close>

definition registered_world :: world where
  "registered_world = empty_world\<lparr>registry := [''database-backup'' \<mapsto> example_job]\<rparr>"

definition invalid_world :: world where
  "invalid_world = empty_world\<lparr>registry := [''database-backup'' \<mapsto> invalid_job]\<rparr>"

text \<open>
  A date the job hands out is readable when it is \<^verbatim>\<open>null\<close>, or normalizes without
  throwing to a valid date.
\<close>

definition readable :: "cron_date_like option \<Rightarrow> bool" where
  "readable x =
     (case x of
        None \<Rightarrow> True
      | Some dl \<Rightarrow> (case toJSDate dl of Inr (DateMs t) \<Rightarrow> True | _ \<Rightarrow> False))"

subsection \<open>Notions used in the proofs\<close>

text \<open>\<^verbatim>\<open>process.env[k] = v\<close>, or \<^verbatim>\<open>delete process.env[k]\<close> when \<open>v\<close> is \<open>None\<close>.\<close>

definition setenv :: "string \<Rightarrow> string option \<Rightarrow> world \<Rightarrow> world" where
  "setenv k v w = w\<lparr>env := (env w)(k := v)\<rparr>"

text \<open>
  A computation is observing when all it does to the state is to read the clock and to add
  events of the set \<open>A\<close>.
\<close>

definition observing :: "event set \<Rightarrow> 'a io \<Rightarrow> bool" where
  "observing A m =
     (\<forall>w. env (snd (m w)) = env w \<and> registry (snd (m w)) = registry w
          \<and> clock (snd (m w)) = clock w
          \<and> (\<exists>evs. trace (snd (m w)) = trace w @ evs \<and> set evs \<subseteq> A))"

text \<open>
  A computation ignores the environment variable \<open>k\<close> when a change of its value changes
  nothing but the value itself in the state afterwards.
\<close>

definition ignores :: "string \<Rightarrow> 'a io \<Rightarrow> bool" where
  "ignores k m = (\<forall>w v. m (setenv k v w) = (fst (m w), setenv k v (snd (m w))))"

text \<open>A computation yields \<open>P\<close> when every value it returns satisfies \<open>P\<close>.\<close>

definition yields :: "('a \<Rightarrow> bool) \<Rightarrow> 'a io \<Rightarrow> bool" where
  "yields P m = (\<forall>w x. fst (m w) = Inr x \<longrightarrow> P x)"

text \<open>The events that are lines printed by \<^verbatim>\<open>console.log\<close>.\<close>

fun is_console_log :: "event \<Rightarrow> bool" where
  "is_console_log (ConsoleLog t) = True"
| "is_console_log ev = False"

text \<open>
  Two states are alike up to the console when they differ at most in what
  \<^verbatim>\<open>console.log\<close> has printed.
\<close>

definition alike :: "world \<Rightarrow> world \<Rightarrow> bool" where
  "alike w1 w2 =
     (env w1 = env w2 \<and> registry w1 = registry w2 \<and> clock w1 = clock w2 \<and> ticks w1 = ticks w2
      \<and> filter (\<lambda>ev. \<not> is_console_log ev) (trace w1) = filter (\<lambda>ev. \<not> is_console_log ev) (trace w2))"

text \<open>
  Two computations run alike when, from states that are alike, they throw the same error or
  return values related by \<open>R\<close>, and leave states that are alike.
\<close>

definition sim :: "('a \<Rightarrow> 'b \<Rightarrow> bool) \<Rightarrow> 'a io \<Rightarrow> 'b io \<Rightarrow> bool" where
  "sim R m1 m2 =
     (\<forall>w1 w2. alike w1 w2 \<longrightarrow>
        rel_sum (=) R (fst (m1 w1)) (fst (m2 w2)) \<and> alike (snd (m1 w1)) (snd (m2 w2)))"

section \<open>Properties\<close>

subsection \<open>Basic facts\<close>

lemmas io_defs = io_return_def io_bind_def io_try_def io_of_def call_def console_log_def
  console_error_def getenv_def newDate_def emit_def

lemma new_events_append: "new_events w (w\<lparr>trace := trace w @ evs\<rparr>) = evs"
  by (simp add: new_events_def)

lemma new_events_append_more:
  "new_events w (w\<lparr>registry := r, trace := trace w @ evs\<rparr>) = evs"
  by (simp add: new_events_def)

text \<open>A \<^verbatim>\<open>try\<close> whose handler always returns always returns.\<close>

lemma io_try_returns:
  assumes "\<And>e w'. \<exists>x. fst (h e w') = Inr x"
  shows "\<exists>x. fst (io_try m h w) = Inr x"
proof (cases "m w")
  case (Pair r w')
  show ?thesis
  proof (cases r)
    case (Inl e)
    with Pair assms [of e w'] show ?thesis by (simp add: io_try_def)
  next
    case (Inr x)
    with Pair show ?thesis by (simp add: io_try_def)
  qed
qed

subsection \<open>The timer callback\<close>

lemma callback_getClient_fails:
  "getClient d = Inl e \<Longrightarrow>
   scheduledBackupCallback d w =
     (Inr (), w\<lparr>trace := trace w @
        [ConsoleLog (Chalk Yellow ''[BACKUP] Running scheduled backup...''),
         GetClient,
         ConsoleError (Chalk Red ''[BACKUP] Scheduled backup failed:'') e]\<rparr>)"
  by (simp add: scheduledBackupCallback_def scheduledBackupBody_def io_defs)

lemma callback_create_fails:
  "getClient d = Inr c \<Longrightarrow> createFullBackup d c = Inl e \<Longrightarrow>
   scheduledBackupCallback d w =
     (Inr (), w\<lparr>trace := trace w @
        [ConsoleLog (Chalk Yellow ''[BACKUP] Running scheduled backup...''),
         GetClient,
         CreateFullBackup c,
         ConsoleError (Chalk Red ''[BACKUP] Scheduled backup failed:'') e]\<rparr>)"
  by (simp add: scheduledBackupCallback_def scheduledBackupBody_def io_defs)

lemma callback_upload_fails:
  "getClient d = Inr c \<Longrightarrow> createFullBackup d c = Inr p \<Longrightarrow> uploadToSupabase d p = Inl e \<Longrightarrow>
   scheduledBackupCallback d w =
     (Inr (), w\<lparr>trace := trace w @
        [ConsoleLog (Chalk Yellow ''[BACKUP] Running scheduled backup...''),
         GetClient,
         CreateFullBackup c,
         ConsoleLog (Chalk Green (''[BACKUP] Scheduled backup completed locally: '' @ p)),
         UploadToSupabase p,
         ConsoleError (Chalk Red ''[BACKUP] Scheduled backup failed:'') e]\<rparr>)"
  by (simp add: scheduledBackupCallback_def scheduledBackupBody_def io_defs)

lemma callback_clean_fails:
  "getClient d = Inr c \<Longrightarrow> createFullBackup d c = Inr p \<Longrightarrow> uploadToSupabase d p = Inr () \<Longrightarrow>
   cleanOldBackups d 30 = Inl e \<Longrightarrow>
   scheduledBackupCallback d w =
     (Inr (), w\<lparr>trace := trace w @
        [ConsoleLog (Chalk Yellow ''[BACKUP] Running scheduled backup...''),
         GetClient,
         CreateFullBackup c,
         ConsoleLog (Chalk Green (''[BACKUP] Scheduled backup completed locally: '' @ p)),
         UploadToSupabase p,
         CleanOldBackups 30,
         ConsoleError (Chalk Red ''[BACKUP] Scheduled backup failed:'') e]\<rparr>)"
  by (simp add: scheduledBackupCallback_def scheduledBackupBody_def io_defs)

lemma callback_succeeds:
  "getClient d = Inr c \<Longrightarrow> createFullBackup d c = Inr p \<Longrightarrow> uploadToSupabase d p = Inr () \<Longrightarrow>
   cleanOldBackups d 30 = Inr () \<Longrightarrow>
   scheduledBackupCallback d w =
     (Inr (), w\<lparr>trace := trace w @
        [ConsoleLog (Chalk Yellow ''[BACKUP] Running scheduled backup...''),
         GetClient,
         CreateFullBackup c,
         ConsoleLog (Chalk Green (''[BACKUP] Scheduled backup completed locally: '' @ p)),
         UploadToSupabase p,
         CleanOldBackups 30]\<rparr>)"
  by (simp add: scheduledBackupCallback_def scheduledBackupBody_def io_defs)

lemma callback_returns: "fst (scheduledBackupCallback d w) = Inr ()"
proof -
  have "\<exists>x. fst (io_try (scheduledBackupBody d)
          (\<lambda>error. console_error (Chalk Red ''[BACKUP] Scheduled backup failed:'') error) w') = Inr x"
    for w'
    by (rule io_try_returns) (simp add: console_error_def)
  then show ?thesis
    by (simp add: scheduledBackupCallback_def io_bind_def console_log_def)
qed

lemma callback_frame:
  "env (snd (scheduledBackupCallback d w)) = env w \<and>
   registry (snd (scheduledBackupCallback d w)) = registry w"
  by (simp add: scheduledBackupCallback_def scheduledBackupBody_def io_defs
      split: sum.split prod.split)

text \<open>
  Claim C2. A firing of the timer callback calls \<^verbatim>\<open>getClient\<close>, then
  \<^verbatim>\<open>createFullBackup(client)\<close>, then \<^verbatim>\<open>uploadToSupabase(path)\<close>, then
  \<^verbatim>\<open>cleanOldBackups(30)\<close>, in this order. The first step that fails ends the
  sequence: no later step is called, the error is written to the console, and the callback
  returns. The callback never throws, and the registry is as it was.
\<close>

theorem scheduledBackupCallback_sequential_and_contained:
  "fst (scheduledBackupCallback d w) = Inr ()
   \<and> registry (snd (scheduledBackupCallback d w)) = registry w
   \<and> (getClient d = Inl e \<longrightarrow>
        new_events w (snd (scheduledBackupCallback d w)) =
          [ConsoleLog (Chalk Yellow ''[BACKUP] Running scheduled backup...''),
           GetClient,
           ConsoleError (Chalk Red ''[BACKUP] Scheduled backup failed:'') e])
   \<and> (getClient d = Inr c \<and> createFullBackup d c = Inl e \<longrightarrow>
        new_events w (snd (scheduledBackupCallback d w)) =
          [ConsoleLog (Chalk Yellow ''[BACKUP] Running scheduled backup...''),
           GetClient,
           CreateFullBackup c,
           ConsoleError (Chalk Red ''[BACKUP] Scheduled backup failed:'') e])
   \<and> (getClient d = Inr c \<and> createFullBackup d c = Inr p \<and> uploadToSupabase d p = Inl e \<longrightarrow>
        new_events w (snd (scheduledBackupCallback d w)) =
          [ConsoleLog (Chalk Yellow ''[BACKUP] Running scheduled backup...''),
           GetClient,
           CreateFullBackup c,
           ConsoleLog (Chalk Green (''[BACKUP] Scheduled backup completed locally: '' @ p)),
           UploadToSupabase p,
           ConsoleError (Chalk Red ''[BACKUP] Scheduled backup failed:'') e])
   \<and> (getClient d = Inr c \<and> createFullBackup d c = Inr p \<and> uploadToSupabase d p = Inr ()
        \<and> cleanOldBackups d 30 = Inl e \<longrightarrow>
        new_events w (snd (scheduledBackupCallback d w)) =
          [ConsoleLog (Chalk Yellow ''[BACKUP] Running scheduled backup...''),
           GetClient,
           CreateFullBackup c,
           ConsoleLog (Chalk Green (''[BACKUP] Scheduled backup completed locally: '' @ p)),
           UploadToSupabase p,
           CleanOldBackups 30,
           ConsoleError (Chalk Red ''[BACKUP] Scheduled backup failed:'') e])
   \<and> (getClient d = Inr c \<and> createFullBackup d c = Inr p \<and> uploadToSupabase d p = Inr ()
        \<and> cleanOldBackups d 30 = Inr () \<longrightarrow>
        new_events w (snd (scheduledBackupCallback d w)) =
          [ConsoleLog (Chalk Yellow ''[BACKUP] Running scheduled backup...''),
           GetClient,
           CreateFullBackup c,
           ConsoleLog (Chalk Green (''[BACKUP] Scheduled backup completed locally: '' @ p)),
           UploadToSupabase p,
           CleanOldBackups 30])"
proof (intro conjI impI)
  show "fst (scheduledBackupCallback d w) = Inr ()"
    by (rule callback_returns)
  show "registry (snd (scheduledBackupCallback d w)) = registry w"
    by (simp add: callback_frame)
qed (simp_all add: callback_getClient_fails callback_create_fails callback_upload_fails
      callback_clean_fails callback_succeeds new_events_append)

theorem scheduledBackupCallback_sequential_and_contained_witness:
  "new_events empty_world (snd (scheduledBackupCallback
       (example_deps\<lparr>getClient := Inl (Error ''no pool'')\<rparr>) empty_world)) =
     [ConsoleLog (Chalk Yellow ''[BACKUP] Running scheduled backup...''),
      GetClient,
      ConsoleError (Chalk Red ''[BACKUP] Scheduled backup failed:'') (Error ''no pool'')]
   \<and> new_events empty_world (snd (scheduledBackupCallback
       (example_deps\<lparr>createFullBackup := \<lambda>c. Inl (Error ''pg_dump failed'')\<rparr>) empty_world)) =
     [ConsoleLog (Chalk Yellow ''[BACKUP] Running scheduled backup...''),
      GetClient,
      CreateFullBackup (Client 1),
      ConsoleError (Chalk Red ''[BACKUP] Scheduled backup failed:'') (Error ''pg_dump failed'')]
   \<and> new_events empty_world (snd (scheduledBackupCallback
       (example_deps\<lparr>uploadToSupabase := \<lambda>p. Inl (Error ''bucket missing'')\<rparr>) empty_world)) =
     [ConsoleLog (Chalk Yellow ''[BACKUP] Running scheduled backup...''),
      GetClient,
      CreateFullBackup (Client 1),
      ConsoleLog (Chalk Green ''[BACKUP] Scheduled backup completed locally: backups/full.sql''),
      UploadToSupabase ''backups/full.sql'',
      ConsoleError (Chalk Red ''[BACKUP] Scheduled backup failed:'') (Error ''bucket missing'')]
   \<and> new_events empty_world (snd (scheduledBackupCallback
       (example_deps\<lparr>cleanOldBackups := \<lambda>n. Inl (Error ''readdir failed'')\<rparr>) empty_world)) =
     [ConsoleLog (Chalk Yellow ''[BACKUP] Running scheduled backup...''),
      GetClient,
      CreateFullBackup (Client 1),
      ConsoleLog (Chalk Green ''[BACKUP] Scheduled backup completed locally: backups/full.sql''),
      UploadToSupabase ''backups/full.sql'',
      CleanOldBackups 30,
      ConsoleError (Chalk Red ''[BACKUP] Scheduled backup failed:'') (Error ''readdir failed'')]
   \<and> new_events empty_world (snd (scheduledBackupCallback example_deps empty_world)) =
     [ConsoleLog (Chalk Yellow ''[BACKUP] Running scheduled backup...''),
      GetClient,
      CreateFullBackup (Client 1),
      ConsoleLog (Chalk Green ''[BACKUP] Scheduled backup completed locally: backups/full.sql''),
      UploadToSupabase ''backups/full.sql'',
      CleanOldBackups 30]"
  using
    scheduledBackupCallback_sequential_and_contained
      [of "example_deps\<lparr>getClient := Inl (Error ''no pool'')\<rparr>" empty_world "Error ''no pool''"]
    scheduledBackupCallback_sequential_and_contained
      [of "example_deps\<lparr>createFullBackup := \<lambda>c. Inl (Error ''pg_dump failed'')\<rparr>" empty_world
          "Error ''pg_dump failed''" "Client 1"]
    scheduledBackupCallback_sequential_and_contained
      [of "example_deps\<lparr>uploadToSupabase := \<lambda>p. Inl (Error ''bucket missing'')\<rparr>" empty_world
          "Error ''bucket missing''" "Client 1" "''backups/full.sql''"]
    scheduledBackupCallback_sequential_and_contained
      [of "example_deps\<lparr>cleanOldBackups := \<lambda>n. Inl (Error ''readdir failed'')\<rparr>" empty_world
          "Error ''readdir failed''" "Client 1" "''backups/full.sql''"]
    scheduledBackupCallback_sequential_and_contained
      [of example_deps empty_world _ "Client 1" "''backups/full.sql''"]
  by (simp add: example_deps_def)

subsection \<open>The manual trigger\<close>

lemma manual_getClient_fails:
  "getClient d = Inl e \<Longrightarrow>
   triggerManualBackup d w =
     (Inl e, w\<lparr>trace := trace w @
        [ConsoleLog (Chalk Yellow ''[BACKUP] Manual backup triggered...''),
         GetClient,
         ConsoleError (Chalk Red ''[BACKUP] Manual backup failed:'') e]\<rparr>)"
  by (simp add: triggerManualBackup_def io_defs)

lemma manual_create_fails:
  "getClient d = Inr c \<Longrightarrow> createFullBackup d c = Inl e \<Longrightarrow>
   triggerManualBackup d w =
     (Inl e, w\<lparr>trace := trace w @
        [ConsoleLog (Chalk Yellow ''[BACKUP] Manual backup triggered...''),
         GetClient,
         CreateFullBackup c,
         ConsoleError (Chalk Red ''[BACKUP] Manual backup failed:'') e]\<rparr>)"
  by (simp add: triggerManualBackup_def io_defs)

lemma manual_upload_fails:
  "getClient d = Inr c \<Longrightarrow> createFullBackup d c = Inr p \<Longrightarrow> uploadToSupabase d p = Inl e \<Longrightarrow>
   triggerManualBackup d w =
     (Inl e, w\<lparr>trace := trace w @
        [ConsoleLog (Chalk Yellow ''[BACKUP] Manual backup triggered...''),
         GetClient,
         CreateFullBackup c,
         ConsoleLog (Chalk Green (''[BACKUP] Manual backup completed locally: '' @ p)),
         UploadToSupabase p,
         ConsoleError (Chalk Red ''[BACKUP] Manual backup failed:'') e]\<rparr>)"
  by (simp add: triggerManualBackup_def io_defs)

lemma manual_succeeds:
  "getClient d = Inr c \<Longrightarrow> createFullBackup d c = Inr p \<Longrightarrow> uploadToSupabase d p = Inr () \<Longrightarrow>
   triggerManualBackup d w =
     (Inr p, w\<lparr>trace := trace w @
        [ConsoleLog (Chalk Yellow ''[BACKUP] Manual backup triggered...''),
         GetClient,
         CreateFullBackup c,
         ConsoleLog (Chalk Green (''[BACKUP] Manual backup completed locally: '' @ p)),
         UploadToSupabase p]\<rparr>)"
  by (simp add: triggerManualBackup_def io_defs)

text \<open>The four cases above are all there are, and none of them prunes.\<close>

lemma manual_never_cleans:
  "CleanOldBackups n \<notin> set (new_events w (snd (triggerManualBackup d w)))"
proof (cases "getClient d")
  case (Inl e)
  then show ?thesis by (simp add: manual_getClient_fails new_events_append)
next
  case c: (Inr c)
  show ?thesis
  proof (cases "createFullBackup d c")
    case (Inl e)
    with c show ?thesis by (simp add: manual_create_fails new_events_append)
  next
    case p: (Inr p)
    show ?thesis
    proof (cases "uploadToSupabase d p")
      case (Inl e)
      with c p show ?thesis by (simp add: manual_upload_fails new_events_append)
    next
      case (Inr u)
      with c p show ?thesis by (simp add: manual_succeeds new_events_append)
    qed
  qed
qed

text \<open>
  Claim C3. \<^verbatim>\<open>triggerManualBackup\<close> calls \<^verbatim>\<open>getClient\<close>,
  \<^verbatim>\<open>createFullBackup\<close> and \<^verbatim>\<open>uploadToSupabase\<close> and never
  \<^verbatim>\<open>cleanOldBackups\<close>. When all three succeed it returns the path that
  \<^verbatim>\<open>createFullBackup\<close> produced; when one throws, the error is written to the
  console and thrown again to the caller.
\<close>

theorem triggerManualBackup_create_upload_rethrow:
  "(\<forall>n. CleanOldBackups n \<notin> set (new_events w (snd (triggerManualBackup d w))))
   \<and> (getClient d = Inr c \<and> createFullBackup d c = Inr p \<and> uploadToSupabase d p = Inr () \<longrightarrow>
        fst (triggerManualBackup d w) = Inr p
        \<and> new_events w (snd (triggerManualBackup d w)) =
            [ConsoleLog (Chalk Yellow ''[BACKUP] Manual backup triggered...''),
             GetClient,
             CreateFullBackup c,
             ConsoleLog (Chalk Green (''[BACKUP] Manual backup completed locally: '' @ p)),
             UploadToSupabase p])
   \<and> (getClient d = Inl e \<longrightarrow>
        fst (triggerManualBackup d w) = Inl e
        \<and> new_events w (snd (triggerManualBackup d w)) =
            [ConsoleLog (Chalk Yellow ''[BACKUP] Manual backup triggered...''),
             GetClient,
             ConsoleError (Chalk Red ''[BACKUP] Manual backup failed:'') e])
   \<and> (getClient d = Inr c \<and> createFullBackup d c = Inl e \<longrightarrow>
        fst (triggerManualBackup d w) = Inl e
        \<and> new_events w (snd (triggerManualBackup d w)) =
            [ConsoleLog (Chalk Yellow ''[BACKUP] Manual backup triggered...''),
             GetClient,
             CreateFullBackup c,
             ConsoleError (Chalk Red ''[BACKUP] Manual backup failed:'') e])
   \<and> (getClient d = Inr c \<and> createFullBackup d c = Inr p \<and> uploadToSupabase d p = Inl e \<longrightarrow>
        fst (triggerManualBackup d w) = Inl e
        \<and> new_events w (snd (triggerManualBackup d w)) =
            [ConsoleLog (Chalk Yellow ''[BACKUP] Manual backup triggered...''),
             GetClient,
             CreateFullBackup c,
             ConsoleLog (Chalk Green (''[BACKUP] Manual backup completed locally: '' @ p)),
             UploadToSupabase p,
             ConsoleError (Chalk Red ''[BACKUP] Manual backup failed:'') e])"
proof (intro conjI impI allI)
  fix n
  show "CleanOldBackups n \<notin> set (new_events w (snd (triggerManualBackup d w)))"
    by (rule manual_never_cleans)
qed (simp_all add: manual_getClient_fails manual_create_fails manual_upload_fails
      manual_succeeds new_events_append)

theorem triggerManualBackup_create_upload_rethrow_witness:
  "fst (triggerManualBackup example_deps empty_world) = Inr ''backups/full.sql''
   \<and> new_events empty_world (snd (triggerManualBackup example_deps empty_world)) =
       [ConsoleLog (Chalk Yellow ''[BACKUP] Manual backup triggered...''),
        GetClient,
        CreateFullBackup (Client 1),
        ConsoleLog (Chalk Green ''[BACKUP] Manual backup completed locally: backups/full.sql''),
        UploadToSupabase ''backups/full.sql'']
   \<and> fst (triggerManualBackup (example_deps\<lparr>getClient := Inl (Error ''no pool'')\<rparr>) empty_world)
       = Inl (Error ''no pool'')
   \<and> fst (triggerManualBackup
        (example_deps\<lparr>createFullBackup := \<lambda>c. Inl (Error ''pg_dump failed'')\<rparr>) empty_world)
       = Inl (Error ''pg_dump failed'')
   \<and> new_events empty_world (snd (triggerManualBackup
        (example_deps\<lparr>createFullBackup := \<lambda>c. Inl (Error ''pg_dump failed'')\<rparr>) empty_world)) =
       [ConsoleLog (Chalk Yellow ''[BACKUP] Manual backup triggered...''),
        GetClient,
        CreateFullBackup (Client 1),
        ConsoleError (Chalk Red ''[BACKUP] Manual backup failed:'') (Error ''pg_dump failed'')]
   \<and> fst (triggerManualBackup
        (example_deps\<lparr>uploadToSupabase := \<lambda>p. Inl (Error ''bucket missing'')\<rparr>) empty_world)
       = Inl (Error ''bucket missing'')"
  using
    triggerManualBackup_create_upload_rethrow
      [of empty_world example_deps "Client 1" "''backups/full.sql''"]
    triggerManualBackup_create_upload_rethrow
      [of empty_world "example_deps\<lparr>getClient := Inl (Error ''no pool'')\<rparr>" _ _ "Error ''no pool''"]
    triggerManualBackup_create_upload_rethrow
      [of empty_world "example_deps\<lparr>createFullBackup := \<lambda>c. Inl (Error ''pg_dump failed'')\<rparr>"
          "Client 1" _ "Error ''pg_dump failed''"]
    triggerManualBackup_create_upload_rethrow
      [of empty_world "example_deps\<lparr>uploadToSupabase := \<lambda>p. Inl (Error ''bucket missing'')\<rparr>"
          "Client 1" "''backups/full.sql''" "Error ''bucket missing''"]
  by (simp add: example_deps_def)

subsection \<open>Stopping\<close>

lemma stop_absent:
  "registry w ''database-backup'' = None \<Longrightarrow>
   stopScheduledBackups d w =
     (Inr (), w\<lparr>trace := trace w @
        [GetCronJob ''database-backup'',
         ConsoleError (Plain ''[BACKUP] Error stopping scheduled backups:'')
           (noCronJobFound ''database-backup'')]\<rparr>)"
  by (simp add: stopScheduledBackups_def getCronJob_def io_defs)

lemma stop_throws:
  "registry w ''database-backup'' = Some job \<Longrightarrow> stopJob d job = (Inl e, job') \<Longrightarrow>
   stopScheduledBackups d w =
     (Inr (), w\<lparr>registry := (registry w)(''database-backup'' \<mapsto> job'),
              trace := trace w @
        [GetCronJob ''database-backup'',
         JobStop,
         ConsoleError (Plain ''[BACKUP] Error stopping scheduled backups:'') e]\<rparr>)"
  by (simp add: stopScheduledBackups_def getCronJob_def jobStop_def io_defs)

lemma stop_rejects:
  "registry w ''database-backup'' = Some job \<Longrightarrow>
   stopJob d job = (Inr (StopPromise (Inl e)), job') \<Longrightarrow>
   stopScheduledBackups d w =
     (Inr (), w\<lparr>registry := (registry w)(''database-backup'' \<mapsto> job'),
              trace := trace w @
        [GetCronJob ''database-backup'',
         JobStop,
         AwaitStop,
         ConsoleError (Plain ''[BACKUP] Error stopping scheduled backups:'') e]\<rparr>)"
  by (simp add: stopScheduledBackups_def getCronJob_def jobStop_def io_defs)

lemma stop_returns: "fst (stopScheduledBackups d w) = Inr ()"
proof -
  have "\<exists>x. fst (stopScheduledBackups d w) = Inr x"
    unfolding stopScheduledBackups_def
    by (rule io_try_returns) (simp add: console_error_def)
  then show ?thesis by simp
qed

text \<open>
  Claim C6. \<^verbatim>\<open>stopScheduledBackups\<close> returns normally in every state and for
  every behaviour of the job's \<^verbatim>\<open>stop\<close>, so a second call right after the first
  returns normally too. A job that is not registered, a \<^verbatim>\<open>stop\<close> that throws and a
  \<^verbatim>\<open>stop\<close> whose promise rejects are each written to the console.
\<close>

theorem stopScheduledBackups_never_throws:
  "fst (stopScheduledBackups d w) = Inr ()
   \<and> fst (stopScheduledBackups d' (snd (stopScheduledBackups d w))) = Inr ()
   \<and> (registry w ''database-backup'' = None \<longrightarrow>
        new_events w (snd (stopScheduledBackups d w)) =
           [GetCronJob ''database-backup'',
            ConsoleError (Plain ''[BACKUP] Error stopping scheduled backups:'')
              (noCronJobFound ''database-backup'')])
   \<and> (registry w ''database-backup'' = Some job \<and> stopJob d job = (Inl e, job') \<longrightarrow>
        new_events w (snd (stopScheduledBackups d w)) =
           [GetCronJob ''database-backup'',
            JobStop,
            ConsoleError (Plain ''[BACKUP] Error stopping scheduled backups:'') e])
   \<and> (registry w ''database-backup'' = Some job
        \<and> stopJob d job = (Inr (StopPromise (Inl e)), job') \<longrightarrow>
        new_events w (snd (stopScheduledBackups d w)) =
           [GetCronJob ''database-backup'',
            JobStop,
            AwaitStop,
            ConsoleError (Plain ''[BACKUP] Error stopping scheduled backups:'') e])"
proof (intro conjI impI)
  show "fst (stopScheduledBackups d w) = Inr ()"
    by (rule stop_returns)
  show "fst (stopScheduledBackups d' (snd (stopScheduledBackups d w))) = Inr ()"
    by (rule stop_returns)
next
  assume "registry w ''database-backup'' = None"
  then show "new_events w (snd (stopScheduledBackups d w)) =
     [GetCronJob ''database-backup'',
      ConsoleError (Plain ''[BACKUP] Error stopping scheduled backups:'')
        (noCronJobFound ''database-backup'')]"
    by (simp add: stop_absent new_events_append)
next
  assume "registry w ''database-backup'' = Some job \<and> stopJob d job = (Inl e, job')"
  then show "new_events w (snd (stopScheduledBackups d w)) =
     [GetCronJob ''database-backup'', JobStop,
      ConsoleError (Plain ''[BACKUP] Error stopping scheduled backups:'') e]"
    by (simp add: stop_throws new_events_append_more)
next
  assume "registry w ''database-backup'' = Some job
    \<and> stopJob d job = (Inr (StopPromise (Inl e)), job')"
  then show "new_events w (snd (stopScheduledBackups d w)) =
     [GetCronJob ''database-backup'', JobStop, AwaitStop,
      ConsoleError (Plain ''[BACKUP] Error stopping scheduled backups:'') e]"
    by (simp add: stop_rejects new_events_append_more)
qed

theorem stopScheduledBackups_never_throws_witness:
  "fst (stopScheduledBackups example_deps empty_world) = Inr ()
   \<and> fst (stopScheduledBackups example_deps
        (snd (stopScheduledBackups example_deps empty_world))) = Inr ()
   \<and> new_events empty_world (snd (stopScheduledBackups example_deps empty_world)) =
        [GetCronJob ''database-backup'',
         ConsoleError (Plain ''[BACKUP] Error stopping scheduled backups:'')
           (noCronJobFound ''database-backup'')]
   \<and> fst (stopScheduledBackups
        (example_deps\<lparr>stopJob := \<lambda>job. (Inl (Error ''timer gone''), job)\<rparr>) registered_world)
       = Inr ()
   \<and> new_events registered_world (snd (stopScheduledBackups
        (example_deps\<lparr>stopJob := \<lambda>job. (Inl (Error ''timer gone''), job)\<rparr>) registered_world)) =
        [GetCronJob ''database-backup'',
         JobStop,
         ConsoleError (Plain ''[BACKUP] Error stopping scheduled backups:'') (Error ''timer gone'')]
   \<and> new_events registered_world (snd (stopScheduledBackups
        (example_deps\<lparr>stopJob := \<lambda>job. (Inr (StopPromise (Inl (Error ''onComplete failed''))), job)\<rparr>)
        registered_world)) =
        [GetCronJob ''database-backup'',
         JobStop,
         AwaitStop,
         ConsoleError (Plain ''[BACKUP] Error stopping scheduled backups:'')
           (Error ''onComplete failed'')]"
  using
    stopScheduledBackups_never_throws [of example_deps empty_world example_deps]
    stopScheduledBackups_never_throws
      [of "example_deps\<lparr>stopJob := \<lambda>job. (Inl (Error ''timer gone''), job)\<rparr>" registered_world
          example_deps example_job "Error ''timer gone''" example_job]
    stopScheduledBackups_never_throws
      [of "example_deps\<lparr>stopJob := \<lambda>job. (Inr (StopPromise (Inl (Error ''onComplete failed''))), job)\<rparr>"
          registered_world example_deps example_job "Error ''onComplete failed''" example_job]
  by (simp add: example_deps_def registered_world_def empty_world_def)

subsection \<open>Scheduling\<close>

lemma scheduleBackups_disabled:
  "env w ''BACKUP_ENABLED'' = Some ''false'' \<Longrightarrow>
   scheduleBackups d w =
     (Inr (), w\<lparr>trace := trace w @
        [ConsoleLog (Chalk Yellow ''[BACKUP] Scheduled backups are disabled'')]\<rparr>)"
  by (simp add: scheduleBackups_def console_log_def emit_def)

text \<open>
  When enabled, the method starts with the announcement and the construction of the job. A
  constructor that throws ends it there.
\<close>

lemma scheduleBackups_constructor_throws:
  assumes "env w ''BACKUP_ENABLED'' \<noteq> Some ''false''"
    and "newCronJob d (envOr (env w ''BACKUP_CRON'') ''0 2 * * *'')
           (envOr (env w ''BACKUP_TIMEZONE'') ''UTC'') = Inl e"
  shows "scheduleBackups d w =
     (Inl e, w\<lparr>trace := trace w @
        [ConsoleLog (Chalk Cyan (''[BACKUP] Scheduling automatic backups: ''
           @ envOr (env w ''BACKUP_CRON'') ''0 2 * * *'' @ '' (''
           @ envOr (env w ''BACKUP_TIMEZONE'') ''UTC'' @ '')'')),
         NewCronJob (envOr (env w ''BACKUP_CRON'') ''0 2 * * *'') False
           (envOr (env w ''BACKUP_TIMEZONE'') ''UTC'')]\<rparr>)"
  using assms by (simp add: scheduleBackups_def Let_def io_defs)

lemma scheduleBackups_enabled_constructs:
  assumes "env w ''BACKUP_ENABLED'' \<noteq> Some ''false''"
  shows "take 2 (new_events w (snd (scheduleBackups d w))) =
     [ConsoleLog (Chalk Cyan (''[BACKUP] Scheduling automatic backups: ''
        @ envOr (env w ''BACKUP_CRON'') ''0 2 * * *'' @ '' (''
        @ envOr (env w ''BACKUP_TIMEZONE'') ''UTC'' @ '')'')),
      NewCronJob (envOr (env w ''BACKUP_CRON'') ''0 2 * * *'') False
        (envOr (env w ''BACKUP_TIMEZONE'') ''UTC'')]"
  using assms
  by (simp add: scheduleBackups_def Let_def io_defs new_events_def split: sum.split prod.split)

text \<open>Nothing in the method writes to the registry or to the environment.\<close>

lemma scheduleBackups_frame:
  "registry (snd (scheduleBackups d w)) = registry w \<and> env (snd (scheduleBackups d w)) = env w"
  by (simp add: scheduleBackups_def Let_def io_defs split: sum.split prod.split)

text \<open>
  Claim C5. When \<^verbatim>\<open>BACKUP_ENABLED\<close> is the string \<^verbatim>\<open>"false"\<close>,
  \<^verbatim>\<open>scheduleBackups\<close> writes one line to the console and returns: no job is
  constructed and the registry is as it was. For every other value, and when the variable is
  unset, it goes on to construct the job, with the cron expression and the time zone of the
  environment; when these two are unset, they are \<^verbatim>\<open>"0 2 * * *"\<close> and
  \<^verbatim>\<open>"UTC"\<close>.
\<close>

theorem scheduleBackups_enabled_flag_and_defaults:
  "(env w ''BACKUP_ENABLED'' = Some ''false'' \<longrightarrow>
      fst (scheduleBackups d w) = Inr ()
      \<and> new_events w (snd (scheduleBackups d w)) =
          [ConsoleLog (Chalk Yellow ''[BACKUP] Scheduled backups are disabled'')]
      \<and> registry (snd (scheduleBackups d w)) = registry w)
   \<and> (env w ''BACKUP_ENABLED'' \<noteq> Some ''false'' \<longrightarrow>
      take 2 (new_events w (snd (scheduleBackups d w))) =
        [ConsoleLog (Chalk Cyan (''[BACKUP] Scheduling automatic backups: ''
           @ envOr (env w ''BACKUP_CRON'') ''0 2 * * *'' @ '' (''
           @ envOr (env w ''BACKUP_TIMEZONE'') ''UTC'' @ '')'')),
         NewCronJob (envOr (env w ''BACKUP_CRON'') ''0 2 * * *'') False
           (envOr (env w ''BACKUP_TIMEZONE'') ''UTC'')])
   \<and> (env w ''BACKUP_ENABLED'' \<noteq> Some ''false'' \<and> env w ''BACKUP_CRON'' = None
        \<and> env w ''BACKUP_TIMEZONE'' = None \<longrightarrow>
      take 2 (new_events w (snd (scheduleBackups d w))) =
        [ConsoleLog (Chalk Cyan ''[BACKUP] Scheduling automatic backups: 0 2 * * * (UTC)''),
         NewCronJob ''0 2 * * *'' False ''UTC''])"
proof (intro conjI impI)
  assume off: "env w ''BACKUP_ENABLED'' = Some ''false''"
  from scheduleBackups_disabled [OF off]
  show "fst (scheduleBackups d w) = Inr ()"
    by simp
  from scheduleBackups_disabled [OF off]
  show "new_events w (snd (scheduleBackups d w)) =
      [ConsoleLog (Chalk Yellow ''[BACKUP] Scheduled backups are disabled'')]"
    by (simp add: new_events_append)
  show "registry (snd (scheduleBackups d w)) = registry w"
    by (simp add: scheduleBackups_frame)
next
  assume "env w ''BACKUP_ENABLED'' \<noteq> Some ''false''"
  then show "take 2 (new_events w (snd (scheduleBackups d w))) =
        [ConsoleLog (Chalk Cyan (''[BACKUP] Scheduling automatic backups: ''
           @ envOr (env w ''BACKUP_CRON'') ''0 2 * * *'' @ '' (''
           @ envOr (env w ''BACKUP_TIMEZONE'') ''UTC'' @ '')'')),
         NewCronJob (envOr (env w ''BACKUP_CRON'') ''0 2 * * *'') False
           (envOr (env w ''BACKUP_TIMEZONE'') ''UTC'')]"
    by (rule scheduleBackups_enabled_constructs)
next
  assume unset: "env w ''BACKUP_ENABLED'' \<noteq> Some ''false'' \<and> env w ''BACKUP_CRON'' = None
        \<and> env w ''BACKUP_TIMEZONE'' = None"
  then have "env w ''BACKUP_ENABLED'' \<noteq> Some ''false''"
    by simp
  from scheduleBackups_enabled_constructs [OF this, of d] unset
  show "take 2 (new_events w (snd (scheduleBackups d w))) =
        [ConsoleLog (Chalk Cyan ''[BACKUP] Scheduling automatic backups: 0 2 * * * (UTC)''),
         NewCronJob ''0 2 * * *'' False ''UTC'']"
    by (simp add: envOr_def)
qed

theorem scheduleBackups_enabled_flag_and_defaults_witness:
  "new_events (empty_world\<lparr>env := [''BACKUP_ENABLED'' \<mapsto> ''false'']\<rparr>)
       (snd (scheduleBackups example_deps (empty_world\<lparr>env := [''BACKUP_ENABLED'' \<mapsto> ''false'']\<rparr>))) =
     [ConsoleLog (Chalk Yellow ''[BACKUP] Scheduled backups are disabled'')]
   \<and> take 2 (new_events (empty_world\<lparr>env := [''BACKUP_ENABLED'' \<mapsto> ''FALSE'']\<rparr>)
       (snd (scheduleBackups example_deps (empty_world\<lparr>env := [''BACKUP_ENABLED'' \<mapsto> ''FALSE'']\<rparr>)))) =
     [ConsoleLog (Chalk Cyan ''[BACKUP] Scheduling automatic backups: 0 2 * * * (UTC)''),
      NewCronJob ''0 2 * * *'' False ''UTC'']
   \<and> take 2 (new_events empty_world (snd (scheduleBackups example_deps empty_world))) =
     [ConsoleLog (Chalk Cyan ''[BACKUP] Scheduling automatic backups: 0 2 * * * (UTC)''),
      NewCronJob ''0 2 * * *'' False ''UTC'']"
  using
    scheduleBackups_enabled_flag_and_defaults
      [of "empty_world\<lparr>env := [''BACKUP_ENABLED'' \<mapsto> ''false'']\<rparr>" example_deps]
    scheduleBackups_enabled_flag_and_defaults
      [of "empty_world\<lparr>env := [''BACKUP_ENABLED'' \<mapsto> ''FALSE'']\<rparr>" example_deps]
    scheduleBackups_enabled_flag_and_defaults [of empty_world example_deps]
  by (simp add: empty_world_def envOr_def)

text \<open>
  Claim C7. When scheduling is enabled and the \<^verbatim>\<open>CronJob\<close> constructor throws
  on the cron expression or the time zone, \<^verbatim>\<open>scheduleBackups\<close> throws the same
  error to its caller. Up to there it has announced the schedule and called the constructor,
  and nothing is written to the error console: the error is not caught on the way.
\<close>

theorem scheduleBackups_constructor_error_propagates:
  assumes "env w ''BACKUP_ENABLED'' \<noteq> Some ''false''"
    and "newCronJob d (envOr (env w ''BACKUP_CRON'') ''0 2 * * *'')
           (envOr (env w ''BACKUP_TIMEZONE'') ''UTC'') = Inl e"
  shows "fst (scheduleBackups d w) = Inl e
    \<and> new_events w (snd (scheduleBackups d w)) =
        [ConsoleLog (Chalk Cyan (''[BACKUP] Scheduling automatic backups: ''
           @ envOr (env w ''BACKUP_CRON'') ''0 2 * * *'' @ '' (''
           @ envOr (env w ''BACKUP_TIMEZONE'') ''UTC'' @ '')'')),
         NewCronJob (envOr (env w ''BACKUP_CRON'') ''0 2 * * *'') False
           (envOr (env w ''BACKUP_TIMEZONE'') ''UTC'')]"
proof
  note run = scheduleBackups_constructor_throws [OF assms]
  from run show "fst (scheduleBackups d w) = Inl e"
    by simp
  from run show "new_events w (snd (scheduleBackups d w)) =
        [ConsoleLog (Chalk Cyan (''[BACKUP] Scheduling automatic backups: ''
           @ envOr (env w ''BACKUP_CRON'') ''0 2 * * *'' @ '' (''
           @ envOr (env w ''BACKUP_TIMEZONE'') ''UTC'' @ '')'')),
         NewCronJob (envOr (env w ''BACKUP_CRON'') ''0 2 * * *'') False
           (envOr (env w ''BACKUP_TIMEZONE'') ''UTC'')]"
    by (simp add: new_events_append)
qed

theorem scheduleBackups_constructor_error_propagates_witness:
  "fst (scheduleBackups
          (example_deps\<lparr>newCronJob := \<lambda>cronTime tz.
             if cronTime = ''every night'' then Inl (Error ''Unknown alias: every'')
             else Inr example_job\<rparr>)
          (empty_world\<lparr>env := [''BACKUP_CRON'' \<mapsto> ''every night'']\<rparr>))
     = Inl (Error ''Unknown alias: every'')
   \<and> new_events (empty_world\<lparr>env := [''BACKUP_CRON'' \<mapsto> ''every night'']\<rparr>)
       (snd (scheduleBackups
          (example_deps\<lparr>newCronJob := \<lambda>cronTime tz.
             if cronTime = ''every night'' then Inl (Error ''Unknown alias: every'')
             else Inr example_job\<rparr>)
          (empty_world\<lparr>env := [''BACKUP_CRON'' \<mapsto> ''every night'']\<rparr>)))
     = [ConsoleLog (Chalk Cyan ''[BACKUP] Scheduling automatic backups: every night (UTC)''),
        NewCronJob ''every night'' False ''UTC'']"
proof -
  let ?d = "example_deps\<lparr>newCronJob := \<lambda>cronTime tz.
             if cronTime = ''every night'' then Inl (Error ''Unknown alias: every'')
             else Inr example_job\<rparr>"
  let ?w = "empty_world\<lparr>env := [''BACKUP_CRON'' \<mapsto> ''every night'']\<rparr>"
  have on: "env ?w ''BACKUP_ENABLED'' \<noteq> Some ''false''"
    by (simp add: empty_world_def)
  have bad: "newCronJob ?d (envOr (env ?w ''BACKUP_CRON'') ''0 2 * * *'')
           (envOr (env ?w ''BACKUP_TIMEZONE'') ''UTC'') = Inl (Error ''Unknown alias: every'')"
    by (simp add: empty_world_def envOr_def)
  from scheduleBackups_constructor_error_propagates [OF on bad]
  show ?thesis
    by (simp add: empty_world_def envOr_def)
qed

text \<open>
  Claim C1, on the code. With no environment variable set, an empty registry and a
  constructor that succeeds, \<^verbatim>\<open>scheduleBackups\<close> returns normally, and afterwards
  no job is registered under \<^verbatim>\<open>"database-backup"\<close>. The job is constructed with
  \<^verbatim>\<open>start = false\<close> and asked for its next date; it is neither added to the
  registry nor started. By \<open>scheduleBackups_frame\<close> the registry is unchanged for every
  configuration.
\<close>

theorem scheduleBackups_registers_nothing:
  "fst (scheduleBackups example_deps empty_world) = Inr ()
   \<and> registry (snd (scheduleBackups example_deps empty_world)) ''database-backup'' = None
   \<and> new_events empty_world (snd (scheduleBackups example_deps empty_world)) =
       [ConsoleLog (Chalk Cyan ''[BACKUP] Scheduling automatic backups: 0 2 * * * (UTC)''),
        NewCronJob ''0 2 * * *'' False ''UTC'',
        JobNextDate,
        ConsoleLog (Chalk Green ''[BACKUP] Automatic backup schedule initialized.''),
        ConsoleLog (Chalk Cyan ''[BACKUP] Current Server Time: ISO | local(GMT+8): LOCAL''),
        ConsoleLog (Chalk Yellow ''[BACKUP] Next run scheduled for: ISO | local(GMT+8): LOCAL'')]"
  by (simp add: scheduleBackups_def Let_def io_defs new_events_def example_deps_def
      example_job_def empty_world_def envOr_def toJSDate_def toISOString_def formatGMT8_def
      toLocaleString_def)

subsection \<open>The status query\<close>

lemma status_returns: "\<exists>s. fst (getScheduleStatus d w) = Inr s"
  unfolding getScheduleStatus_def
  by (rule io_try_returns) (simp add: io_defs)

lemma status_absent:
  "registry w ''database-backup'' = None \<Longrightarrow>
   getScheduleStatus d w =
     (Inr (Degraded False (envOr (env w ''BACKUP_CRON'') ''0 2 * * *'') ''Scheduler not initialized''),
      w\<lparr>trace := trace w @
        [GetCronJob ''database-backup'',
         ConsoleError (Plain ''[BACKUP] Status check failed:'')
           (noCronJobFound ''database-backup'')]\<rparr>)"
  by (simp add: getScheduleStatus_def getCronJob_def io_defs)

text \<open>
  The dates are rendered without a look at the state, and a readable date always renders.
\<close>

lemma runStr_state: "runStr d x w = (fst (runStr d x w0), w)"
  by (cases x) (simp_all add: runStr_def io_defs split: sum.split)

lemma runLocal_state: "runLocal d x w = (fst (runLocal d x w0), w)"
  by (cases x) (simp_all add: runLocal_def io_defs split: sum.split)

lemma runStr_readable:
  "readable x \<Longrightarrow> \<exists>s. runStr d x w = (Inr s, w)"
  by (cases x)
     (auto simp: readable_def runStr_def toISOString_def io_defs
        split: sum.splits js_date.splits)

lemma runLocal_readable:
  "readable x \<Longrightarrow> \<exists>s. runLocal d x w = (Inr s, w)"
  by (cases x)
     (auto simp: readable_def runLocal_def io_defs split: sum.splits js_date.splits)

lemma status_full:
  assumes job: "registry w ''database-backup'' = Some job"
    and dates: "nextDate job = Inr nd" "lastDate job = Inr ld"
    and ok: "readable nd" "readable ld"
  shows "\<exists>s. fst (getScheduleStatus d w) = Inr s \<and> is_Status s \<and> enabled s"
proof -
  let ?w = "w\<lparr>trace := trace w @ [GetCronJob ''database-backup'', JobNextDate, JobLastDate]\<rparr>"
  obtain ns where ns: "runStr d nd ?w = (Inr ns, ?w)"
    using runStr_readable [OF ok(1)] by blast
  obtain ls where ls: "runStr d ld ?w = (Inr ls, ?w)"
    using runStr_readable [OF ok(2)] by blast
  obtain nl where nl: "runLocal d nd ?w = (Inr nl, ?w)"
    using runLocal_readable [OF ok(1)] by blast
  obtain ll where ll: "runLocal d ld ?w = (Inr ll, ?w)"
    using runLocal_readable [OF ok(2)] by blast
  from job dates ns ls nl ll show ?thesis
    by (simp add: getScheduleStatus_def getCronJob_def toISOString_def io_defs)
qed

subsubsection \<open>Observing computations\<close>

lemma observing_return: "observing A (io_return x)"
  by (simp add: observing_def io_return_def)

lemma observing_of: "observing A (io_of r)"
  by (simp add: observing_def io_of_def)

lemma observing_getenv: "observing A (getenv k)"
  by (simp add: observing_def getenv_def)

lemma observing_newDate: "observing A newDate"
  by (simp add: observing_def newDate_def)

lemma observing_call: "ev \<in> A \<Longrightarrow> observing A (call ev r)"
  by (simp add: observing_def call_def emit_def)

lemma observing_console_error: "ConsoleError t e \<in> A \<Longrightarrow> observing A (console_error t e)"
  by (simp add: observing_def console_error_def emit_def)

lemma observing_getCronJob: "GetCronJob name \<in> A \<Longrightarrow> observing A (getCronJob name)"
  by (simp add: observing_def getCronJob_def emit_def split: option.split)

lemma observing_bind:
  assumes m: "observing A m" and f: "\<And>x. observing A (f x)"
  shows "observing A (io_bind m f)"
  unfolding observing_def
proof
  fix w
  obtain r w' where mw: "m w = (r, w')"
    by (cases "m w")
  from m mw obtain evs where
    w': "env w' = env w" "registry w' = registry w" "clock w' = clock w"
        "trace w' = trace w @ evs" "set evs \<subseteq> A"
    unfolding observing_def by (metis snd_conv)
  show "env (snd (io_bind m f w)) = env w \<and> registry (snd (io_bind m f w)) = registry w
      \<and> clock (snd (io_bind m f w)) = clock w
      \<and> (\<exists>evs. trace (snd (io_bind m f w)) = trace w @ evs \<and> set evs \<subseteq> A)"
  proof (cases r)
    case (Inl e)
    with mw w' show ?thesis by (simp add: io_bind_def)
  next
    case (Inr x)
    from f [of x] obtain evs' where
      w'': "env (snd (f x w')) = env w'" "registry (snd (f x w')) = registry w'"
           "clock (snd (f x w')) = clock w'"
           "trace (snd (f x w')) = trace w' @ evs'" "set evs' \<subseteq> A"
      unfolding observing_def by metis
    from w' w'' have "trace (snd (f x w')) = trace w @ (evs @ evs') \<and> set (evs @ evs') \<subseteq> A"
      by simp
    then have "\<exists>evs. trace (snd (f x w')) = trace w @ evs \<and> set evs \<subseteq> A" ..
    with Inr mw w' w'' show ?thesis by (simp add: io_bind_def)
  qed
qed

lemma observing_try:
  assumes m: "observing A m" and h: "\<And>e. observing A (h e)"
  shows "observing A (io_try m h)"
  unfolding observing_def
proof
  fix w
  obtain r w' where mw: "m w = (r, w')"
    by (cases "m w")
  from m mw obtain evs where
    w': "env w' = env w" "registry w' = registry w" "clock w' = clock w"
        "trace w' = trace w @ evs" "set evs \<subseteq> A"
    unfolding observing_def by (metis snd_conv)
  show "env (snd (io_try m h w)) = env w \<and> registry (snd (io_try m h w)) = registry w
      \<and> clock (snd (io_try m h w)) = clock w
      \<and> (\<exists>evs. trace (snd (io_try m h w)) = trace w @ evs \<and> set evs \<subseteq> A)"
  proof (cases r)
    case (Inr x)
    with mw w' show ?thesis by (simp add: io_try_def)
  next
    case (Inl e)
    from h [of e] obtain evs' where
      w'': "env (snd (h e w')) = env w'" "registry (snd (h e w')) = registry w'"
           "clock (snd (h e w')) = clock w'"
           "trace (snd (h e w')) = trace w' @ evs'" "set evs' \<subseteq> A"
      unfolding observing_def by metis
    from w' w'' have "trace (snd (h e w')) = trace w @ (evs @ evs') \<and> set (evs @ evs') \<subseteq> A"
      by simp
    then have "\<exists>evs. trace (snd (h e w')) = trace w @ evs \<and> set evs \<subseteq> A" ..
    with Inl mw w' w'' show ?thesis by (simp add: io_try_def)
  qed
qed

lemma observing_runStr: "observing A (runStr d x)"
  by (cases x) (simp_all add: runStr_def observing_return observing_of observing_bind)

lemma observing_runLocal: "observing A (runLocal d x)"
  by (cases x) (simp_all add: runLocal_def observing_return observing_of observing_bind)

lemma observing_getScheduleStatus:
  "observing ({GetCronJob ''database-backup'', JobNextDate, JobLastDate}
             \<union> range (ConsoleError (Plain ''[BACKUP] Status check failed:'')))
     (getScheduleStatus d)"
  unfolding getScheduleStatus_def
  by (intro observing_try observing_bind observing_return observing_of observing_getenv observing_newDate
        observing_runStr observing_runLocal observing_call observing_console_error observing_getCronJob)
     simp_all

subsubsection \<open>Computations that ignore an environment variable\<close>

lemma ignores_return: "ignores k (io_return x)"
  by (simp add: ignores_def io_return_def)

lemma ignores_of: "ignores k (io_of r)"
  by (simp add: ignores_def io_of_def)

lemma ignores_getenv: "k' \<noteq> k \<Longrightarrow> ignores k (getenv k')"
  by (simp add: ignores_def getenv_def setenv_def)

lemma ignores_newDate: "ignores k newDate"
  by (simp add: ignores_def newDate_def setenv_def)

lemma ignores_call: "ignores k (call ev r)"
  by (simp add: ignores_def call_def emit_def setenv_def)

lemma ignores_console_error: "ignores k (console_error t e)"
  by (simp add: ignores_def console_error_def emit_def setenv_def)

lemma ignores_getCronJob: "ignores k (getCronJob name)"
  by (simp add: ignores_def getCronJob_def emit_def setenv_def split: option.split)

lemma ignores_bind:
  assumes m: "ignores k m" and f: "\<And>x. ignores k (f x)"
  shows "ignores k (io_bind m f)"
  unfolding ignores_def
proof (intro allI)
  fix w v
  obtain r w' where mw: "m w = (r, w')"
    by (cases "m w")
  with m have mv: "m (setenv k v w) = (r, setenv k v w')"
    by (simp add: ignores_def)
  show "io_bind m f (setenv k v w) = (fst (io_bind m f w), setenv k v (snd (io_bind m f w)))"
  proof (cases r)
    case (Inl e)
    with mw mv show ?thesis by (simp add: io_bind_def)
  next
    case (Inr x)
    from f [of x] have "f x (setenv k v w') = (fst (f x w'), setenv k v (snd (f x w')))"
      by (simp add: ignores_def)
    with Inr mw mv show ?thesis by (simp add: io_bind_def)
  qed
qed

lemma ignores_try:
  assumes m: "ignores k m" and h: "\<And>e. ignores k (h e)"
  shows "ignores k (io_try m h)"
  unfolding ignores_def
proof (intro allI)
  fix w v
  obtain r w' where mw: "m w = (r, w')"
    by (cases "m w")
  with m have mv: "m (setenv k v w) = (r, setenv k v w')"
    by (simp add: ignores_def)
  show "io_try m h (setenv k v w) = (fst (io_try m h w), setenv k v (snd (io_try m h w)))"
  proof (cases r)
    case (Inr x)
    with mw mv show ?thesis by (simp add: io_try_def)
  next
    case (Inl e)
    from h [of e] have "h e (setenv k v w') = (fst (h e w'), setenv k v (snd (h e w')))"
      by (simp add: ignores_def)
    with Inl mw mv show ?thesis by (simp add: io_try_def)
  qed
qed

lemma ignores_runStr: "ignores k (runStr d x)"
  by (cases x) (simp_all add: runStr_def ignores_return ignores_of ignores_bind)

lemma ignores_runLocal: "ignores k (runLocal d x)"
  by (cases x) (simp_all add: runLocal_def ignores_return ignores_of ignores_bind)

lemma ignores_getScheduleStatus: "ignores ''BACKUP_ENABLED'' (getScheduleStatus d)"
  unfolding getScheduleStatus_def
  by (intro ignores_try ignores_bind ignores_return ignores_of ignores_getenv ignores_newDate
        ignores_runStr ignores_runLocal ignores_call ignores_console_error ignores_getCronJob)
     simp_all

subsubsection \<open>What the status query returns and leaves behind\<close>

text \<open>
  Claim C4. \<^verbatim>\<open>getScheduleStatus\<close> returns a record in every state of the
  registry, whatever the job's dates are or throw. When no job is registered under
  \<^verbatim>\<open>"database-backup"\<close>, the record is
  \<^verbatim>\<open>{enabled: false, cronExpression, error: "Scheduler not initialized"}\<close>.
\<close>

theorem getScheduleStatus_never_throws:
  "(\<exists>s. fst (getScheduleStatus d w) = Inr s)
   \<and> (registry w ''database-backup'' = None \<longrightarrow>
        fst (getScheduleStatus d w) =
          Inr (Degraded False (envOr (env w ''BACKUP_CRON'') ''0 2 * * *'')
                 ''Scheduler not initialized''))"
proof
  show "\<exists>s. fst (getScheduleStatus d w) = Inr s"
    by (rule status_returns)
  show "registry w ''database-backup'' = None \<longrightarrow>
        fst (getScheduleStatus d w) =
          Inr (Degraded False (envOr (env w ''BACKUP_CRON'') ''0 2 * * *'')
                 ''Scheduler not initialized'')"
    by (simp add: status_absent)
qed

theorem getScheduleStatus_never_throws_witness:
  "registry empty_world ''database-backup'' = None
   \<and> fst (getScheduleStatus example_deps empty_world) =
       Inr (Degraded False ''0 2 * * *'' ''Scheduler not initialized'')
   \<and> registry (empty_world\<lparr>env := [''BACKUP_CRON'' \<mapsto> ''*/5 * * * *'']\<rparr>) ''database-backup'' = None
   \<and> fst (getScheduleStatus example_deps
            (empty_world\<lparr>env := [''BACKUP_CRON'' \<mapsto> ''*/5 * * * *'']\<rparr>)) =
       Inr (Degraded False ''*/5 * * * *'' ''Scheduler not initialized'')"
  using getScheduleStatus_never_throws [of example_deps empty_world]
    getScheduleStatus_never_throws
      [of example_deps "empty_world\<lparr>env := [''BACKUP_CRON'' \<mapsto> ''*/5 * * * *'']\<rparr>"]
  by (simp add: empty_world_def envOr_def)

text \<open>
  The \<^verbatim>\<open>catch\<close> block also answers when the job is registered but one of its dates
  cannot be rendered: here the next date normalizes to the invalid date and
  \<^verbatim>\<open>toISOString\<close> throws a RangeError.
\<close>

lemma status_invalid_date_degraded:
  "registry invalid_world ''database-backup'' = Some invalid_job
   \<and> fst (getScheduleStatus example_deps invalid_world) =
       Inr (Degraded False ''0 2 * * *'' ''Scheduler not initialized'')"
  by (simp add: getScheduleStatus_def getCronJob_def runStr_def runLocal_def io_defs
      toJSDate_def toISOString_def invalid_world_def invalid_job_def example_job_def
      empty_world_def envOr_def)

text \<open>What every returned value of a computation satisfies, step by step.\<close>

lemma yields_return: "P x \<Longrightarrow> yields P (io_return x)"
  by (simp add: yields_def io_return_def)

lemma yields_bind:
  assumes "\<And>x. yields P (f x)"
  shows "yields P (io_bind m f)"
  unfolding yields_def
proof (intro allI impI)
  fix w y
  assume ret: "fst (io_bind m f w) = Inr y"
  obtain r w' where mw: "m w = (r, w')"
    by (cases "m w")
  show "P y"
  proof (cases r)
    case (Inl e)
    with mw ret show ?thesis by (simp add: io_bind_def)
  next
    case (Inr x)
    with mw ret have "fst (f x w') = Inr y"
      by (simp add: io_bind_def)
    with assms [of x] show ?thesis
      by (auto simp: yields_def)
  qed
qed

lemma yields_try:
  assumes "yields P m" and "\<And>e. yields P (h e)"
  shows "yields P (io_try m h)"
  unfolding yields_def
proof (intro allI impI)
  fix w y
  assume ret: "fst (io_try m h w) = Inr y"
  obtain r w' where mw: "m w = (r, w')"
    by (cases "m w")
  show "P y"
  proof (cases r)
    case (Inl e)
    with mw ret have "fst (h e w') = Inr y"
      by (simp add: io_try_def)
    with assms(2) [of e] show ?thesis
      by (auto simp: yields_def)
  next
    case (Inr x)
    with mw ret have "fst (m w) = Inr y"
      by (simp add: io_try_def)
    with assms(1) show ?thesis
      by (auto simp: yields_def)
  qed
qed

text \<open>
  The record of the \<^verbatim>\<open>try\<close> block is built with \<^verbatim>\<open>enabled: true\<close>, the
  record of the \<^verbatim>\<open>catch\<close> block is not a full record.
\<close>

lemma status_success_enabled:
  "yields (\<lambda>s. is_Status s \<longrightarrow> enabled s) (getScheduleStatus d)"
  unfolding getScheduleStatus_def
  by (intro yields_try yields_bind yields_return) simp_all

text \<open>
  Claim C9. On the success path of \<^verbatim>\<open>getScheduleStatus\<close>, where the record of
  lines 168 to 190 is returned, the field \<^verbatim>\<open>enabled\<close> is true whatever the value
  of \<^verbatim>\<open>BACKUP_ENABLED\<close> is, unset included; the method does not consult that
  variable, so what it returns is the same for every value of it.
\<close>

theorem getScheduleStatus_success_path_enabled:
  "fst (getScheduleStatus d (setenv ''BACKUP_ENABLED'' v w)) = fst (getScheduleStatus d w)
   \<and> (fst (getScheduleStatus d (setenv ''BACKUP_ENABLED'' v w)) = Inr s \<and> is_Status s
        \<longrightarrow> enabled s)"
proof
  from ignores_getScheduleStatus [of d]
  show "fst (getScheduleStatus d (setenv ''BACKUP_ENABLED'' v w)) = fst (getScheduleStatus d w)"
    by (simp add: ignores_def)
  from status_success_enabled [of d]
  show "fst (getScheduleStatus d (setenv ''BACKUP_ENABLED'' v w)) = Inr s \<and> is_Status s
        \<longrightarrow> enabled s"
    unfolding yields_def by blast
qed

theorem getScheduleStatus_success_path_enabled_witness:
  "fst (getScheduleStatus example_deps (setenv ''BACKUP_ENABLED'' (Some ''false'') registered_world))
     = Inr (Status True ''0 2 * * *'' ''UTC'' ''ISO'' ''LOCAL'' ''N/A'' ''N/A'' ''ISO'' ''LOCAL'')
   \<and> fst (getScheduleStatus example_deps (setenv ''BACKUP_ENABLED'' (Some ''false'') registered_world))
     = fst (getScheduleStatus example_deps registered_world)
   \<and> is_Status (Status True ''0 2 * * *'' ''UTC'' ''ISO'' ''LOCAL'' ''N/A'' ''N/A'' ''ISO'' ''LOCAL'')
   \<and> enabled (Status True ''0 2 * * *'' ''UTC'' ''ISO'' ''LOCAL'' ''N/A'' ''N/A'' ''ISO'' ''LOCAL'')"
proof -
  let ?s = "Status True ''0 2 * * *'' ''UTC'' ''ISO'' ''LOCAL'' ''N/A'' ''N/A'' ''ISO'' ''LOCAL''"
  let ?w = "setenv ''BACKUP_ENABLED'' (Some ''false'') registered_world"
  have run: "fst (getScheduleStatus example_deps ?w) = Inr ?s"
    by (simp add: getScheduleStatus_def getCronJob_def runStr_def runLocal_def io_defs
        toJSDate_def toISOString_def formatGMT8_def toLocaleString_def registered_world_def
        example_job_def example_deps_def empty_world_def envOr_def setenv_def)
  have full: "is_Status ?s"
    by simp
  from getScheduleStatus_success_path_enabled
         [of example_deps "Some ''false''" registered_world ?s] run full
  show ?thesis
    by simp
qed

text \<open>
  Claim C10. After \<^verbatim>\<open>getScheduleStatus\<close> the environment, the registry with
  the jobs it holds, and the clock are as before. All the method does is to look the job
  up, to ask it for its next and last date, to read the clock, and, in the
  \<^verbatim>\<open>catch\<close> block, to write to the error console. It calls none of
  \<^verbatim>\<open>getClient\<close>, \<^verbatim>\<open>createFullBackup\<close>, \<^verbatim>\<open>uploadToSupabase\<close>,
  \<^verbatim>\<open>cleanOldBackups\<close>, it does not stop the job, and it constructs none.
\<close>

theorem getScheduleStatus_read_only:
  "env (snd (getScheduleStatus d w)) = env w
   \<and> registry (snd (getScheduleStatus d w)) = registry w
   \<and> clock (snd (getScheduleStatus d w)) = clock w
   \<and> set (new_events w (snd (getScheduleStatus d w)))
       \<subseteq> {GetCronJob ''database-backup'', JobNextDate, JobLastDate}
         \<union> range (ConsoleError (Plain ''[BACKUP] Status check failed:''))
   \<and> GetClient \<notin> set (new_events w (snd (getScheduleStatus d w)))
   \<and> CreateFullBackup c \<notin> set (new_events w (snd (getScheduleStatus d w)))
   \<and> UploadToSupabase p \<notin> set (new_events w (snd (getScheduleStatus d w)))
   \<and> CleanOldBackups n \<notin> set (new_events w (snd (getScheduleStatus d w)))
   \<and> JobStop \<notin> set (new_events w (snd (getScheduleStatus d w)))
   \<and> AwaitStop \<notin> set (new_events w (snd (getScheduleStatus d w)))
   \<and> NewCronJob cronTime start tz \<notin> set (new_events w (snd (getScheduleStatus d w)))"
proof -
  let ?A = "{GetCronJob ''database-backup'', JobNextDate, JobLastDate}
         \<union> range (ConsoleError (Plain ''[BACKUP] Status check failed:''))"
  let ?w' = "snd (getScheduleStatus d w)"
  from observing_getScheduleStatus [of d]
  obtain evs where
    frame: "env ?w' = env w" "registry ?w' = registry w" "clock ?w' = clock w"
    and evs: "trace ?w' = trace w @ evs" "set evs \<subseteq> ?A"
    unfolding observing_def by blast
  from evs(1) have "new_events w ?w' = evs"
    by (simp add: new_events_def)
  with evs(2) have sub: "set (new_events w ?w') \<subseteq> ?A"
    by simp
  have "GetClient \<notin> ?A" "CreateFullBackup c \<notin> ?A" "UploadToSupabase p \<notin> ?A"
    "CleanOldBackups n \<notin> ?A" "JobStop \<notin> ?A" "AwaitStop \<notin> ?A"
    "NewCronJob cronTime start tz \<notin> ?A"
    by auto
  with sub have "GetClient \<notin> set (new_events w ?w')"
    "CreateFullBackup c \<notin> set (new_events w ?w')"
    "UploadToSupabase p \<notin> set (new_events w ?w')"
    "CleanOldBackups n \<notin> set (new_events w ?w')"
    "JobStop \<notin> set (new_events w ?w')"
    "AwaitStop \<notin> set (new_events w ?w')"
    "NewCronJob cronTime start tz \<notin> set (new_events w ?w')"
    by blast+
  with frame sub show ?thesis
    by simp
qed

subsection \<open>The display format\<close>

subsubsection \<open>The fields of the wall clock\<close>

lemma day_of_year_bounds:
  fixes doq :: int
  assumes "0 \<le> doq" and "doq < 1461"
  shows "0 \<le> doq - 365 * min 3 (doq div 365) \<and> doq - 365 * min 3 (doq div 365) \<le> 365"
  using assms by (auto simp: min_def)

lemma month_day_bounds:
  fixes doy :: int
  assumes "0 \<le> doy" and "doy \<le> 365"
  shows "0 \<le> (5 * doy + 2) div 153 \<and> (5 * doy + 2) div 153 \<le> 11
       \<and> 1 \<le> doy - (153 * ((5 * doy + 2) div 153) + 2) div 5 + 1
       \<and> doy - (153 * ((5 * doy + 2) div 153) + 2) div 5 + 1 \<le> 31"
  using assms by arith

lemma civil_from_days_bounds:
  assumes "civil_from_days days = (y, m, d)"
  shows "1 \<le> m \<and> m \<le> 12 \<and> 1 \<le> d \<and> d \<le> 31"
proof -
  define doq where
    "doq = ((days + 719468) mod 146097
             - 36524 * min 3 ((days + 719468) mod 146097 div 36524)) mod 1461"
  define doy where "doy = doq - 365 * min 3 (doq div 365)"
  define mp where "mp = (5 * doy + 2) div 153"
  define dd where "dd = doy - (153 * mp + 2) div 5 + 1"
  have "0 \<le> doq"
    unfolding doq_def by (rule pos_mod_sign) simp
  moreover have "doq < 1461"
    unfolding doq_def by (rule pos_mod_bound) simp
  ultimately have doy: "0 \<le> doy" "doy \<le> 365"
    using day_of_year_bounds [of doq] unfolding doy_def by blast+
  from month_day_bounds [OF doy]
  have mp: "0 \<le> mp" "mp \<le> 11" and dd: "1 \<le> dd" "dd \<le> 31"
    unfolding dd_def mp_def by blast+
  from assms have m: "m = (if mp < 10 then mp + 3 else mp - 9)" and d: "d = dd"
    unfolding civil_from_days_def Let_def dd_def mp_def doy_def doq_def by blast+
  from m mp have "1 \<le> m \<and> m \<le> 12"
    by (cases "mp < 10") simp_all
  with d dd show ?thesis
    by simp
qed

lemma utc_time_bounds:
  "1 \<le> lt_month (utc_time ms) \<and> lt_month (utc_time ms) \<le> 12
   \<and> 1 \<le> lt_day (utc_time ms) \<and> lt_day (utc_time ms) \<le> 31
   \<and> 0 \<le> lt_hour (utc_time ms) \<and> lt_hour (utc_time ms) < 24
   \<and> 0 \<le> lt_minute (utc_time ms) \<and> lt_minute (utc_time ms) < 60
   \<and> 0 \<le> lt_second (utc_time ms) \<and> lt_second (utc_time ms) < 60"
proof -
  obtain y m d where c: "civil_from_days (ms div 1000 div 86400) = (y, m, d)"
    by (cases "civil_from_days (ms div 1000 div 86400)")
  define sod where "sod = ms div 1000 mod 86400"
  have fields: "utc_time ms =
      \<lparr>lt_year = y, lt_month = m, lt_day = d,
       lt_hour = sod div 3600, lt_minute = sod mod 3600 div 60, lt_second = sod mod 60\<rparr>"
    by (simp add: utc_time_def Let_def c sod_def)
  have sod: "0 \<le> sod" "sod < 86400"
    by (simp_all add: sod_def)
  then have hour: "0 \<le> sod div 3600" "sod div 3600 < 24"
    by simp_all
  have "0 \<le> sod mod 3600" "sod mod 3600 < 3600"
    by simp_all
  then have minute: "0 \<le> sod mod 3600 div 60" "sod mod 3600 div 60 < 60"
    by simp_all
  have second: "0 \<le> sod mod 60" "sod mod 60 < 60"
    by simp_all
  from civil_from_days_bounds [OF c] hour minute second show ?thesis
    by (simp add: fields)
qed

lemma formatGMT8_spec:
  assumes "localeString d ''en-US''
      \<lparr>timeZone = ''Asia/Manila'', year = ''numeric'', month = ''short'', day = ''2-digit'',
       hour = ''2-digit'', minute = ''2-digit'', second = ''2-digit'', hour12 = True\<rparr>
      = manilaString"
  shows "formatGMT8 d (DateMs t) = manilaString t"
  using assms by (simp add: formatGMT8_def toLocaleString_def)

lemma manilaString_example: "manilaString 1718445600000 = ''Jun 15, 2024, 06:00:00 PM''"
  by code_simp

subsubsection \<open>Computations that run alike up to the console\<close>

lemma alike_refl: "alike w w"
  by (simp add: alike_def)

lemma sim_return: "R x y \<Longrightarrow> sim R (io_return x) (io_return y)"
  by (simp add: sim_def io_return_def)

lemma sim_of: "sim (=) (io_of r) (io_of r)"
  by (simp add: sim_def io_of_def sum.rel_eq)

lemma sim_getenv: "sim (=) (getenv k) (getenv k)"
  by (simp add: sim_def getenv_def alike_def)

lemma sim_newDate: "sim (=) newDate newDate"
  by (simp add: sim_def newDate_def alike_def)

lemma sim_call: "sim (=) (call ev r) (call ev r)"
  by (simp add: sim_def call_def emit_def alike_def sum.rel_eq)

lemma sim_console_log: "sim (=) (console_log t1) (console_log t2)"
  by (simp add: sim_def console_log_def emit_def alike_def)

lemma sim_console_error: "sim (=) (console_error t e) (console_error t e)"
  by (simp add: sim_def console_error_def emit_def alike_def)

lemma sim_getCronJob: "sim (=) (getCronJob name) (getCronJob name)"
  by (simp add: sim_def getCronJob_def emit_def alike_def split: option.split)

lemma sim_bind:
  assumes m: "sim R m1 m2" and f: "\<And>x y. R x y \<Longrightarrow> sim S (f1 x) (f2 y)"
  shows "sim S (io_bind m1 f1) (io_bind m2 f2)"
  unfolding sim_def
proof (intro allI impI)
  fix w1 w2
  assume "alike w1 w2"
  with m have rel: "rel_sum (=) R (fst (m1 w1)) (fst (m2 w2))"
    and al: "alike (snd (m1 w1)) (snd (m2 w2))"
    by (simp_all add: sim_def)
  obtain r1 u1 where m1: "m1 w1 = (r1, u1)"
    by (cases "m1 w1")
  obtain r2 u2 where m2: "m2 w2 = (r2, u2)"
    by (cases "m2 w2")
  from rel al m1 m2 have rel': "rel_sum (=) R r1 r2" and al': "alike u1 u2"
    by simp_all
  show "rel_sum (=) S (fst (io_bind m1 f1 w1)) (fst (io_bind m2 f2 w2))
      \<and> alike (snd (io_bind m1 f1 w1)) (snd (io_bind m2 f2 w2))"
  proof (cases r1)
    case (Inl e)
    with rel' have "r2 = Inl e"
      by (cases r2) simp_all
    with Inl m1 m2 al' show ?thesis
      by (simp add: io_bind_def)
  next
    case (Inr x)
    with rel' obtain y where y: "r2 = Inr y" "R x y"
      by (cases r2) simp_all
    from f [OF y(2)] al'
    have "rel_sum (=) S (fst (f1 x u1)) (fst (f2 y u2)) \<and> alike (snd (f1 x u1)) (snd (f2 y u2))"
      by (simp add: sim_def)
    with Inr y m1 m2 show ?thesis
      by (simp add: io_bind_def)
  qed
qed

lemma sim_bind_eq:
  assumes "sim (=) m1 m2" and "\<And>x. sim S (f1 x) (f2 x)"
  shows "sim S (io_bind m1 f1) (io_bind m2 f2)"
  using assms(1)
proof (rule sim_bind)
  fix x y :: 'a
  assume "x = y"
  with assms(2) [of y] show "sim S (f1 x) (f2 y)"
    by simp
qed

lemma sim_try:
  assumes m: "sim R m1 m2" and h: "\<And>e. sim R (h1 e) (h2 e)"
  shows "sim R (io_try m1 h1) (io_try m2 h2)"
  unfolding sim_def
proof (intro allI impI)
  fix w1 w2
  assume "alike w1 w2"
  with m have rel: "rel_sum (=) R (fst (m1 w1)) (fst (m2 w2))"
    and al: "alike (snd (m1 w1)) (snd (m2 w2))"
    by (simp_all add: sim_def)
  obtain r1 u1 where m1: "m1 w1 = (r1, u1)"
    by (cases "m1 w1")
  obtain r2 u2 where m2: "m2 w2 = (r2, u2)"
    by (cases "m2 w2")
  from rel al m1 m2 have rel': "rel_sum (=) R r1 r2" and al': "alike u1 u2"
    by simp_all
  show "rel_sum (=) R (fst (io_try m1 h1 w1)) (fst (io_try m2 h2 w2))
      \<and> alike (snd (io_try m1 h1 w1)) (snd (io_try m2 h2 w2))"
  proof (cases r1)
    case (Inl e)
    with rel' have r2: "r2 = Inl e"
      by (cases r2) simp_all
    from h [of e] al'
    have "rel_sum (=) R (fst (h1 e u1)) (fst (h2 e u2)) \<and> alike (snd (h1 e u1)) (snd (h2 e u2))"
      by (simp add: sim_def)
    with Inl r2 m1 m2 show ?thesis
      by (simp add: io_try_def)
  next
    case (Inr x)
    with rel' obtain y where y: "r2 = Inr y" "R x y"
      by (cases r2) simp_all
    with Inr m1 m2 al' show ?thesis
      by (simp add: io_try_def)
  qed
qed

text \<open>
  The method \<^verbatim>\<open>scheduleBackups\<close> runs alike on two runtimes that differ in what
  \<^verbatim>\<open>toLocaleString\<close> prints: the formatted strings go to \<^verbatim>\<open>console.log\<close> and
  nowhere else.
\<close>

lemma sim_scheduleBackups:
  "sim (=) (scheduleBackups (d\<lparr>localeString := f\<rparr>)) (scheduleBackups d)"
  unfolding sim_def
proof (intro allI impI)
  fix w1 w2
  assume al: "alike w1 w2"
  then have e: "env w1 = env w2"
    by (simp add: alike_def)
  show "rel_sum (=) (=) (fst (scheduleBackups (d\<lparr>localeString := f\<rparr>) w1))
          (fst (scheduleBackups d w2))
      \<and> alike (snd (scheduleBackups (d\<lparr>localeString := f\<rparr>) w1)) (snd (scheduleBackups d w2))"
  proof (cases "env w2 ''BACKUP_ENABLED'' = Some ''false''")
    case True
    from sim_console_log al
    have "rel_sum (=) (=)
        (fst (console_log (Chalk Yellow ''[BACKUP] Scheduled backups are disabled'') w1))
        (fst (console_log (Chalk Yellow ''[BACKUP] Scheduled backups are disabled'') w2))
      \<and> alike (snd (console_log (Chalk Yellow ''[BACKUP] Scheduled backups are disabled'') w1))
         (snd (console_log (Chalk Yellow ''[BACKUP] Scheduled backups are disabled'') w2))"
      unfolding sim_def by blast
    with True e show ?thesis
      by (simp add: scheduleBackups_def)
  next
    case False
    let ?cron = "envOr (env w2 ''BACKUP_CRON'') ''0 2 * * *''"
    let ?tz = "envOr (env w2 ''BACKUP_TIMEZONE'') ''UTC''"
    let ?run = "\<lambda>d.
           io_bind (console_log
                      (Chalk Cyan (''[BACKUP] Scheduling automatic backups: '' @ ?cron
                                   @ '' ('' @ ?tz @ '')''))) (\<lambda>_.
           io_bind (call (NewCronJob ?cron False ?tz) (newCronJob d ?cron ?tz)) (\<lambda>job.
           io_bind (call JobNextDate (nextDate job)) (\<lambda>nextRun.
           io_bind (io_of (case nextRun of
                             None \<Rightarrow> Inl (TypeError ''Cannot read properties of null'')
                           | Some x \<Rightarrow> toJSDate x)) (\<lambda>nextRunDate.
           io_bind (console_log
                      (Chalk Green ''[BACKUP] Automatic backup schedule initialized.'')) (\<lambda>_.
           io_bind newDate (\<lambda>t1.
           io_bind (io_of (toISOString d t1)) (\<lambda>serverIso.
           io_bind newDate (\<lambda>t2.
           io_bind (console_log
                      (Chalk Cyan (''[BACKUP] Current Server Time: '' @ serverIso
                                   @ '' | local(GMT+8): '' @ formatGMT8 d t2))) (\<lambda>_.
           io_bind (io_of (toISOString d nextRunDate)) (\<lambda>nextIso.
           console_log
             (Chalk Yellow (''[BACKUP] Next run scheduled for: '' @ nextIso
                            @ '' | local(GMT+8): '' @ formatGMT8 d nextRunDate))))))))))))"
    have iso: "toISOString (d\<lparr>localeString := f\<rparr>) = toISOString d"
      by (simp add: toISOString_def fun_eq_iff split: js_date.split)
    have new: "newCronJob (d\<lparr>localeString := f\<rparr>) = newCronJob d"
      by simp
    have "sim (=) (?run (d\<lparr>localeString := f\<rparr>)) (?run d)"
      unfolding iso new
      by (intro sim_bind_eq sim_console_log sim_call sim_of sim_newDate)
    with al have "rel_sum (=) (=) (fst (?run (d\<lparr>localeString := f\<rparr>) w1)) (fst (?run d w2))
        \<and> alike (snd (?run (d\<lparr>localeString := f\<rparr>) w1)) (snd (?run d w2))"
      unfolding sim_def by blast
    with False e show ?thesis
      by (simp add: scheduleBackups_def Let_def)
  qed
qed

text \<open>
  The status query puts the formatted strings into the three display fields of the record
  and nowhere else.
\<close>

lemma toISOString_localeString:
  "toISOString (d\<lparr>localeString := f\<rparr>) = toISOString d"
  by (simp add: toISOString_def fun_eq_iff split: js_date.split)

lemma runStr_localeString: "runStr (d\<lparr>localeString := f\<rparr>) x = runStr d x"
  by (cases x) (simp_all add: runStr_def toISOString_localeString)

lemma sim_runStr: "sim (=) (runStr d x) (runStr d x)"
  by (cases x) (simp_all add: runStr_def sim_return sim_bind_eq sim_of)

lemma sim_runLocal: "sim (\<lambda>_ _. True) (runLocal d' x) (runLocal d x)"
proof (cases x)
  case None
  then show ?thesis
    by (simp add: runLocal_def sim_return)
next
  case (Some dl)
  have "sim (\<lambda>_ _. True)
      (io_bind (io_of (toJSDate dl)) (\<lambda>normalized. io_return (formatGMT8 d' normalized)))
      (io_bind (io_of (toJSDate dl)) (\<lambda>normalized. io_return (formatGMT8 d normalized)))"
    by (rule sim_bind_eq, rule sim_of, rule sim_return) simp
  with Some show ?thesis
    by (simp add: runLocal_def)
qed

lemma sim_getScheduleStatus:
  "sim (\<lambda>s1 s2. without_display s1 = without_display s2)
     (getScheduleStatus (d\<lparr>localeString := f\<rparr>)) (getScheduleStatus d)"
  unfolding getScheduleStatus_def runStr_localeString toISOString_localeString
  apply (rule sim_try)
   apply (rule sim_bind_eq, rule sim_getCronJob)
   apply (rule sim_bind_eq, rule sim_call)
   apply (rule sim_bind_eq, rule sim_call)
   apply (rule sim_bind_eq, rule sim_runStr)
   apply (rule sim_bind_eq, rule sim_runStr)
   apply (rule sim_bind_eq, rule sim_getenv)
   apply (rule sim_bind_eq, rule sim_getenv)
   apply (rule sim_bind [where R = "\<lambda>_ _. True"], rule sim_runLocal)
   apply (rule sim_bind [where R = "\<lambda>_ _. True"], rule sim_runLocal)
   apply (rule sim_bind_eq, rule sim_newDate)
   apply (rule sim_bind_eq, rule sim_of)
   apply (rule sim_bind_eq, rule sim_newDate)
   apply (rule sim_return, simp add: without_display_def)
  apply (rule sim_bind_eq, rule sim_console_error)
  apply (rule sim_bind_eq, rule sim_getenv)
  apply (rule sim_return, simp)
  done

subsubsection \<open>The formatted strings stay on the display\<close>

lemma scheduleBackups_extends:
  "trace (snd (scheduleBackups d w)) = trace w @ new_events w (snd (scheduleBackups d w))"
proof -
  have "take (length (trace w)) (trace (snd (scheduleBackups d w))) = trace w"
    by (simp add: scheduleBackups_def Let_def io_defs split: sum.split prod.split)
  then show ?thesis
    unfolding new_events_def by (metis append_take_drop_id)
qed

lemma scheduleBackups_display_only:
  "fst (scheduleBackups (d\<lparr>localeString := f\<rparr>) w) = fst (scheduleBackups d w)
   \<and> filter (\<lambda>ev. \<not> is_console_log ev)
        (new_events w (snd (scheduleBackups (d\<lparr>localeString := f\<rparr>) w)))
     = filter (\<lambda>ev. \<not> is_console_log ev) (new_events w (snd (scheduleBackups d w)))
   \<and> registry (snd (scheduleBackups (d\<lparr>localeString := f\<rparr>) w))
     = registry (snd (scheduleBackups d w))"
proof -
  let ?d' = "d\<lparr>localeString := f\<rparr>"
  from sim_scheduleBackups [where d = d and f = f] alike_refl [of w]
  have rel: "rel_sum (=) (=) (fst (scheduleBackups ?d' w)) (fst (scheduleBackups d w))"
    and al: "alike (snd (scheduleBackups ?d' w)) (snd (scheduleBackups d w))"
    unfolding sim_def by blast+
  from rel have "fst (scheduleBackups ?d' w) = fst (scheduleBackups d w)"
    by (simp add: sum.rel_eq)
  moreover
  from al have "filter (\<lambda>ev. \<not> is_console_log ev) (trace (snd (scheduleBackups ?d' w)))
      = filter (\<lambda>ev. \<not> is_console_log ev) (trace (snd (scheduleBackups d w)))"
    by (simp add: alike_def)
  then have "filter (\<lambda>ev. \<not> is_console_log ev)
        (trace w @ new_events w (snd (scheduleBackups ?d' w)))
      = filter (\<lambda>ev. \<not> is_console_log ev) (trace w @ new_events w (snd (scheduleBackups d w)))"
    by (simp only: scheduleBackups_extends [symmetric])
  then have "filter (\<lambda>ev. \<not> is_console_log ev) (new_events w (snd (scheduleBackups ?d' w)))
      = filter (\<lambda>ev. \<not> is_console_log ev) (new_events w (snd (scheduleBackups d w)))"
    by simp
  moreover
  from al have "registry (snd (scheduleBackups ?d' w)) = registry (snd (scheduleBackups d w))"
    by (simp add: alike_def)
  ultimately show ?thesis
    by blast
qed

lemma other_methods_without_format:
  "scheduledBackupCallback (d\<lparr>localeString := f\<rparr>) = scheduledBackupCallback d
   \<and> triggerManualBackup (d\<lparr>localeString := f\<rparr>) = triggerManualBackup d
   \<and> stopScheduledBackups (d\<lparr>localeString := f\<rparr>) = stopScheduledBackups d"
proof -
  have "jobStop (d\<lparr>localeString := f\<rparr>) = jobStop d"
    by (simp add: jobStop_def fun_eq_iff)
  then show ?thesis
    by (simp add: scheduledBackupCallback_def scheduledBackupBody_def triggerManualBackup_def
        stopScheduledBackups_def)
qed

lemma without_display_related:
  assumes "rel_sum (=) (\<lambda>s1 s2. without_display s1 = without_display s2) a b"
  shows "map_sum id without_display a = map_sum id without_display b"
proof (cases a)
  case (Inl e)
  with assms show ?thesis
    by (cases b) simp_all
next
  case (Inr s)
  with assms show ?thesis
    by (cases b) simp_all
qed

lemma status_events_not_logs:
  assumes "set evs \<subseteq> {GetCronJob ''database-backup'', JobNextDate, JobLastDate}
         \<union> range (ConsoleError (Plain ''[BACKUP] Status check failed:''))"
  shows "filter (\<lambda>ev. \<not> is_console_log ev) evs = evs"
proof -
  from assms have "\<forall>ev \<in> set evs. \<not> is_console_log ev"
    by auto
  then show ?thesis
    by simp
qed

lemma getScheduleStatus_display_only:
  "map_sum id without_display (fst (getScheduleStatus (d\<lparr>localeString := f\<rparr>) w))
     = map_sum id without_display (fst (getScheduleStatus d w))
   \<and> new_events w (snd (getScheduleStatus (d\<lparr>localeString := f\<rparr>) w))
     = new_events w (snd (getScheduleStatus d w))"
proof -
  define r1 where "r1 = getScheduleStatus (d\<lparr>localeString := f\<rparr>) w"
  define r2 where "r2 = getScheduleStatus d w"
  from sim_getScheduleStatus [where d = d and f = f] alike_refl [of w]
  have rel: "rel_sum (=) (\<lambda>s1 s2. without_display s1 = without_display s2) (fst r1) (fst r2)"
    and al: "alike (snd r1) (snd r2)"
    unfolding sim_def r1_def r2_def by blast+
  from rel have result: "map_sum id without_display (fst r1) = map_sum id without_display (fst r2)"
    by (rule without_display_related)
  from observing_getScheduleStatus [of "d\<lparr>localeString := f\<rparr>"] obtain evs1 where
    evs1: "trace (snd r1) = trace w @ evs1"
      "set evs1 \<subseteq> {GetCronJob ''database-backup'', JobNextDate, JobLastDate}
         \<union> range (ConsoleError (Plain ''[BACKUP] Status check failed:''))"
    unfolding observing_def r1_def by blast
  from observing_getScheduleStatus [of d] obtain evs2 where
    evs2: "trace (snd r2) = trace w @ evs2"
      "set evs2 \<subseteq> {GetCronJob ''database-backup'', JobNextDate, JobLastDate}
         \<union> range (ConsoleError (Plain ''[BACKUP] Status check failed:''))"
    unfolding observing_def r2_def by blast
  from al have "filter (\<lambda>ev. \<not> is_console_log ev) (trace (snd r1))
      = filter (\<lambda>ev. \<not> is_console_log ev) (trace (snd r2))"
    unfolding alike_def by blast
  then have "filter (\<lambda>ev. \<not> is_console_log ev) evs1 = filter (\<lambda>ev. \<not> is_console_log ev) evs2"
    unfolding evs1(1) evs2(1) by simp
  then have "evs1 = evs2"
    unfolding status_events_not_logs [OF evs1(2)] status_events_not_logs [OF evs2(2)] .
  with evs1(1) evs2(1) have "new_events w (snd r1) = new_events w (snd r2)"
    by (simp add: new_events_def)
  with result show ?thesis
    unfolding r1_def r2_def by blast
qed

text \<open>
  Claim C8. On a runtime whose \<^verbatim>\<open>toLocaleString\<close> prints, for the locale and the
  options that \<^verbatim>\<open>formatGMT8\<close> passes, what the spec says, \<^verbatim>\<open>formatGMT8\<close>
  maps every timestamp to the string "Mon DD, YYYY, HH:MM:SS AM/PM" of its wall clock in
  Asia/Manila, which is the wall clock of UTC eight hours later: the month is one of twelve,
  the day is 01 to 31, the hour is 01 to 12 with AM or PM, minute and second are 00 to 59.
  The timestamp 2024-06-15T10:00:00Z is printed as "Jun 15, 2024, 06:00:00 PM". What the
  formatter prints is used for display only: with any other formatter
  \<^verbatim>\<open>scheduleBackups\<close> throws or returns the same, makes the same calls (the same
  events but for the lines of \<^verbatim>\<open>console.log\<close>) and leaves the same registry; the timer
  callback, the manual trigger and the stop do not use it at all; and the status query
  returns the same record but for its three display fields.
\<close>

theorem formatGMT8_manila_display_only:
  assumes "localeString d ''en-US''
      \<lparr>timeZone = ''Asia/Manila'', year = ''numeric'', month = ''short'', day = ''2-digit'',
       hour = ''2-digit'', minute = ''2-digit'', second = ''2-digit'', hour12 = True\<rparr>
      = manilaString"
  shows "formatGMT8 d (DateMs t) =
        month_short (lt_month (manila_time t)) @ '' '' @ pad2 (lt_day (manila_time t)) @ '', ''
        @ year_numeric (lt_year (manila_time t)) @ '', ''
        @ pad2 (if lt_hour (manila_time t) mod 12 = 0 then 12 else lt_hour (manila_time t) mod 12)
        @ '':'' @ pad2 (lt_minute (manila_time t)) @ '':'' @ pad2 (lt_second (manila_time t))
        @ '' '' @ (if lt_hour (manila_time t) < 12 then ''AM'' else ''PM'')
    \<and> manila_time t = utc_time (t + 28800000)
    \<and> 1 \<le> lt_month (manila_time t) \<and> lt_month (manila_time t) \<le> 12
    \<and> 1 \<le> lt_day (manila_time t) \<and> lt_day (manila_time t) \<le> 31
    \<and> 0 \<le> lt_hour (manila_time t) \<and> lt_hour (manila_time t) < 24
    \<and> 0 \<le> lt_minute (manila_time t) \<and> lt_minute (manila_time t) < 60
    \<and> 0 \<le> lt_second (manila_time t) \<and> lt_second (manila_time t) < 60
    \<and> formatGMT8 d (DateMs 1718445600000) = ''Jun 15, 2024, 06:00:00 PM''
    \<and> fst (scheduleBackups (d\<lparr>localeString := f\<rparr>) w) = fst (scheduleBackups d w)
    \<and> filter (\<lambda>ev. \<not> is_console_log ev)
         (new_events w (snd (scheduleBackups (d\<lparr>localeString := f\<rparr>) w)))
      = filter (\<lambda>ev. \<not> is_console_log ev) (new_events w (snd (scheduleBackups d w)))
    \<and> registry (snd (scheduleBackups (d\<lparr>localeString := f\<rparr>) w))
      = registry (snd (scheduleBackups d w))
    \<and> scheduledBackupCallback (d\<lparr>localeString := f\<rparr>) = scheduledBackupCallback d
    \<and> triggerManualBackup (d\<lparr>localeString := f\<rparr>) = triggerManualBackup d
    \<and> stopScheduledBackups (d\<lparr>localeString := f\<rparr>) = stopScheduledBackups d
    \<and> map_sum id without_display (fst (getScheduleStatus (d\<lparr>localeString := f\<rparr>) w))
      = map_sum id without_display (fst (getScheduleStatus d w))
    \<and> new_events w (snd (getScheduleStatus (d\<lparr>localeString := f\<rparr>) w))
      = new_events w (snd (getScheduleStatus d w))"
proof -
  have format: "formatGMT8 d (DateMs t) =
        month_short (lt_month (manila_time t)) @ '' '' @ pad2 (lt_day (manila_time t)) @ '', ''
        @ year_numeric (lt_year (manila_time t)) @ '', ''
        @ pad2 (if lt_hour (manila_time t) mod 12 = 0 then 12 else lt_hour (manila_time t) mod 12)
        @ '':'' @ pad2 (lt_minute (manila_time t)) @ '':'' @ pad2 (lt_second (manila_time t))
        @ '' '' @ (if lt_hour (manila_time t) < 12 then ''AM'' else ''PM'')"
    unfolding formatGMT8_spec [OF assms] manilaString_def render12_def ..
  have zone: "manila_time t = utc_time (t + 28800000)"
    by (simp add: manila_time_def)
  have fields: "1 \<le> lt_month (manila_time t) \<and> lt_month (manila_time t) \<le> 12
    \<and> 1 \<le> lt_day (manila_time t) \<and> lt_day (manila_time t) \<le> 31
    \<and> 0 \<le> lt_hour (manila_time t) \<and> lt_hour (manila_time t) < 24
    \<and> 0 \<le> lt_minute (manila_time t) \<and> lt_minute (manila_time t) < 60
    \<and> 0 \<le> lt_second (manila_time t) \<and> lt_second (manila_time t) < 60"
    unfolding manila_time_def by (rule utc_time_bounds)
  have example: "formatGMT8 d (DateMs 1718445600000) = ''Jun 15, 2024, 06:00:00 PM''"
    unfolding formatGMT8_spec [OF assms] by (rule manilaString_example)
  from format zone fields example
    scheduleBackups_display_only [where d = d and f = f and w = w]
    other_methods_without_format [where d = d and f = f]
    getScheduleStatus_display_only [where d = d and f = f and w = w]
  show ?thesis
    by blast
qed

theorem formatGMT8_manila_display_only_witness:
  "localeString manila_deps ''en-US''
      \<lparr>timeZone = ''Asia/Manila'', year = ''numeric'', month = ''short'', day = ''2-digit'',
       hour = ''2-digit'', minute = ''2-digit'', second = ''2-digit'', hour12 = True\<rparr>
      = manilaString
   \<and> formatGMT8 manila_deps (DateMs 1718445600000) = ''Jun 15, 2024, 06:00:00 PM''
   \<and> manila_time 1718445600000 = utc_time 1718474400000
   \<and> fst (scheduleBackups (manila_deps\<lparr>localeString := \<lambda>locale opts t. ''LOCAL''\<rparr>) empty_world)
     = fst (scheduleBackups manila_deps empty_world)"
proof -
  have rt: "localeString manila_deps ''en-US''
      \<lparr>timeZone = ''Asia/Manila'', year = ''numeric'', month = ''short'', day = ''2-digit'',
       hour = ''2-digit'', minute = ''2-digit'', second = ''2-digit'', hour12 = True\<rparr>
      = manilaString"
    by (simp add: manila_deps_def)
  note at_example = formatGMT8_manila_display_only
      [OF rt, where t = 1718445600000 and f = "\<lambda>locale opts t. ''LOCAL''" and w = empty_world]
  from at_example
  have example: "formatGMT8 manila_deps (DateMs 1718445600000) = ''Jun 15, 2024, 06:00:00 PM''"
    by blast
  from at_example
  have zone: "manila_time 1718445600000 = utc_time (1718445600000 + 28800000)"
    by blast
  from at_example
  have same: "fst (scheduleBackups (manila_deps\<lparr>localeString := \<lambda>locale opts t. ''LOCAL''\<rparr>)
        empty_world) = fst (scheduleBackups manila_deps empty_world)"
    by blast
  from rt example zone same show ?thesis
    by simp
qed

end
